theory Spec2Isabelle
  imports Complex_Main
begin

section \<open>Numbers\<close>

text \<open>
  A TypeScript \<open>number\<close> that enters a calculation from outside is either a finite value or
  one of the three non-finite values. Every calculation below first passes such a value
  through \<open>safeNumber\<close>, after which it is finite; finite values are modelled as exact
  reals, so rounding error and overflow of intermediate results are not represented.
\<close>

datatype number = Num real | NaN | PosInfinity | NegInfinity

fun Number_isFinite :: "number \<Rightarrow> bool" where
  "Number_isFinite (Num x) = True"
| "Number_isFinite NaN = False"
| "Number_isFinite PosInfinity = False"
| "Number_isFinite NegInfinity = False"

fun safeNumber :: "number \<Rightarrow> real" where
  "safeNumber (Num x) = x"
| "safeNumber NaN = 0"
| "safeNumber PosInfinity = 0"
| "safeNumber NegInfinity = 0"

text \<open>\<open>Math.round\<close> rounds to the nearest integer, a tie towards plus infinity.\<close>

definition Math_round :: "real \<Rightarrow> int" where
  "Math_round x = \<lfloor>x + 1 / 2\<rfloor>"

section \<open>rentalVerdict.ts\<close>

datatype PaymentFrequency =
  Monthly | SemiMonthly | BiWeekly | Weekly | AcceleratedBiWeekly | AcceleratedWeekly

record MortgageInputs =
  mortgageAmount :: number
  interestRate :: number
  amortizationYears :: number
  paymentFrequency :: PaymentFrequency
  termYears :: number

record MortgageResult =
  payment :: real
  totalInterestTerm :: real
  balanceAfterTerm :: real

fun paymentsPerYear :: "PaymentFrequency \<Rightarrow> nat" where
  "paymentsPerYear Weekly = 52"
| "paymentsPerYear AcceleratedWeekly = 52"
| "paymentsPerYear BiWeekly = 26"
| "paymentsPerYear AcceleratedBiWeekly = 26"
| "paymentsPerYear SemiMonthly = 24"
| "paymentsPerYear Monthly = 12"

definition periodicRate :: "number \<Rightarrow> PaymentFrequency \<Rightarrow> real" where
  "periodicRate annualRate frequency =
     (let rate = safeNumber annualRate / 100;
          perYear = paymentsPerYear frequency
      in if rate \<le> 0 then 0
         else (let compoundPerYear = 2
               in (1 + rate / compoundPerYear) powr (compoundPerYear / real perYear) - 1))"

text \<open>
  The \<open>for\<close> loop of \<open>calculateMortgage\<close>: \<open>i\<close> counts the periods done, and the loop is
  left early once the balance is zero. The result is the pair of the final balance and
  the accumulated interest. The balance is an exact real here: the test for zero is the
  program's, but where exact arithmetic gives 0 the program's doubles may leave a small
  positive residual, and the loop then runs on.
\<close>

function amortize :: "real \<Rightarrow> real \<Rightarrow> nat \<Rightarrow> nat \<Rightarrow> real \<Rightarrow> real \<Rightarrow> real \<times> real" where
  "amortize rate pay termPeriods i balance totalInterest =
     (if i < termPeriods then
        (let interest = balance * rate;
             principalPaid = max 0 (pay - interest);
             totalInterest' = totalInterest + interest;
             balance' = max 0 (balance - principalPaid)
         in if balance' = 0 then (balance', totalInterest')
            else amortize rate pay termPeriods (Suc i) balance' totalInterest')
      else (balance, totalInterest))"
  by pat_completeness auto
termination
  by (relation "measure (\<lambda>(rate, pay, termPeriods, i, balance, totalInterest). termPeriods - i)") auto

declare amortize.simps [simp del]

text \<open>
  The same loop, recording the balance after every period it runs: the balance sequence
  of the amortization. The starting balance is its first entry.
\<close>

function balanceTrace :: "real \<Rightarrow> real \<Rightarrow> nat \<Rightarrow> nat \<Rightarrow> real \<Rightarrow> real list" where
  "balanceTrace rate pay termPeriods i balance =
     balance #
     (if i < termPeriods then
        (let interest = balance * rate;
             principalPaid = max 0 (pay - interest);
             balance' = max 0 (balance - principalPaid)
         in if balance' = 0 then [balance']
            else balanceTrace rate pay termPeriods (Suc i) balance')
      else [])"
  by pat_completeness auto
termination
  by (relation "measure (\<lambda>(rate, pay, termPeriods, i, balance). termPeriods - i)") auto

declare balanceTrace.simps [simp del]

text \<open>
  The constants \<open>calculateMortgage\<close> computes before its loop, each one a definition
  of its own: \<open>principal\<close>, \<open>periods\<close>, \<open>termPeriods\<close>, \<open>basePayment\<close> and
  \<open>payment\<close>. An exponent that is an integer is modelled by \<open>powi\<close>, a fractional one
  by \<open>powr\<close> (its base is above 1 wherever it is used).
\<close>

definition principalOf :: "MortgageInputs \<Rightarrow> real" where
  "principalOf input = max 0 (safeNumber (mortgageAmount input))"

definition periodsOf :: "MortgageInputs \<Rightarrow> int" where
  "periodsOf input =
     max 1 (Math_round (safeNumber (amortizationYears input) *
                        real (paymentsPerYear (paymentFrequency input))))"

definition termPeriodsOf :: "MortgageInputs \<Rightarrow> int" where
  "termPeriodsOf input =
     max 1 (Math_round (safeNumber (termYears input) *
                        real (paymentsPerYear (paymentFrequency input))))"

definition basePaymentOf :: "MortgageInputs \<Rightarrow> real" where
  "basePaymentOf input =
     (let principal = principalOf input;
          periods = periodsOf input;
          rate = periodicRate (interestRate input) (paymentFrequency input)
      in if rate = 0 then principal / real_of_int periods
         else (principal * rate) / (1 - (1 + rate) powi (- periods)))"

definition paymentOf :: "MortgageInputs \<Rightarrow> real" where
  "paymentOf input =
     (let basePayment = basePaymentOf input
      in if paymentFrequency input = AcceleratedBiWeekly then basePayment / 2
         else if paymentFrequency input = AcceleratedWeekly then basePayment / 4
         else basePayment)"

definition calculateMortgage :: "MortgageInputs \<Rightarrow> MortgageResult" where
  "calculateMortgage input =
     (let principal = principalOf input;
          rate = periodicRate (interestRate input) (paymentFrequency input)
      in if principal = 0 then
           \<lparr>payment = 0, totalInterestTerm = 0, balanceAfterTerm = 0\<rparr>
         else
           (let pay = paymentOf input;
                termPeriods = termPeriodsOf input;
                (balance, totalInterest) = amortize rate pay (nat termPeriods) 0 principal 0
            in \<lparr>payment = pay, totalInterestTerm = totalInterest, balanceAfterTerm = balance\<rparr>))"

text \<open>
  The balance sequence of the loop of \<open>calculateMortgage\<close> on an input with a non-zero
  principal.
\<close>

definition mortgageBalances :: "MortgageInputs \<Rightarrow> real list" where
  "mortgageBalances input =
     balanceTrace (periodicRate (interestRate input) (paymentFrequency input))
       (paymentOf input) (nat (termPeriodsOf input)) 0 (principalOf input)"

datatype RentSource = WebEstimate | ProviderEstimate | Manual

record RentRange =
  low :: number
  median :: number
  high :: number
  source :: RentSource

record ExpenseInputs =
  vacancyPercent :: number
  maintenancePercent :: number
  managementPercent :: number
  reservesPercent :: number
  insuranceAnnual :: number
  utilitiesAnnual :: number
  hoaMonthly :: number
  propertyTaxAnnual :: number

datatype Verdict = Excellent | Good | Weak

record InvestmentMetrics =
  noiAnnual :: real
  capRate :: real
  cashFlowAnnual :: number
  dscr :: real
  verdict :: Verdict

text \<open>
  \<open>price\<close> and \<open>mortgagePaymentAnnual\<close> are used as they come, without \<open>safeNumber\<close>:
  a comparison with a NaN is false, a finite value divided by an infinity is zero, and a
  finite value minus a non-finite one is non-finite.
\<close>

fun greaterThanZero :: "number \<Rightarrow> bool" where
  "greaterThanZero (Num x) = (0 < x)"
| "greaterThanZero PosInfinity = True"
| "greaterThanZero NaN = False"
| "greaterThanZero NegInfinity = False"

fun divideBy :: "real \<Rightarrow> number \<Rightarrow> real" where
  "divideBy x (Num y) = x / y"
| "divideBy x PosInfinity = 0"
| "divideBy x NegInfinity = 0"
| "divideBy x NaN = 0"

fun minusNumber :: "real \<Rightarrow> number \<Rightarrow> number" where
  "minusNumber x (Num y) = Num (x - y)"
| "minusNumber x PosInfinity = NegInfinity"
| "minusNumber x NegInfinity = PosInfinity"
| "minusNumber x NaN = NaN"

text \<open>The net operating income that \<open>calculateInvestment\<close> computes first (\<open>noi\<close>).\<close>

definition noiOf :: "RentRange \<Rightarrow> ExpenseInputs \<Rightarrow> real" where
  "noiOf rentRange expenses =
     (let medianRent = safeNumber (median rentRange);
          grossAnnual = medianRent * 12;
          vacancyLoss = grossAnnual * (safeNumber (vacancyPercent expenses) / 100);
          effectiveIncome = grossAnnual - vacancyLoss;
          management = effectiveIncome * (safeNumber (managementPercent expenses) / 100);
          maintenance = effectiveIncome * (safeNumber (maintenancePercent expenses) / 100);
          reserves = effectiveIncome * (safeNumber (reservesPercent expenses) / 100);
          hoa = safeNumber (hoaMonthly expenses) * 12;
          operatingExpenses =
            management + maintenance + reserves +
            safeNumber (insuranceAnnual expenses) +
            safeNumber (utilitiesAnnual expenses) +
            safeNumber (propertyTaxAnnual expenses) +
            hoa
      in effectiveIncome - operatingExpenses)"

definition calculateInvestment ::
  "number \<Rightarrow> RentRange \<Rightarrow> ExpenseInputs \<Rightarrow> number \<Rightarrow> InvestmentMetrics" where
  "calculateInvestment price rentRange expenses mortgagePaymentAnnual =
     (let noi = noiOf rentRange expenses;
          capRate' = (if greaterThanZero price then divideBy noi price else 0);
          cashFlow = minusNumber noi mortgagePaymentAnnual;
          dscr' = (if greaterThanZero mortgagePaymentAnnual
                   then divideBy noi mortgagePaymentAnnual else 0);
          verdict' = (if capRate' \<ge> 0.045 then Excellent
                      else if capRate' \<ge> 0.03 then Good else Weak)
      in \<lparr>noiAnnual = noi, capRate = capRate', cashFlowAnnual = cashFlow,
          dscr = dscr', verdict = verdict'\<rparr>)"

section \<open>sellDecision.ts\<close>

text \<open>
  Two records of the source have a field \<open>age\<close>, and the input and the result both have a
  field \<open>planningAge\<close>; the snapshot has a field named like the function
  \<open>capitalGainsTax\<close>. The fields of the series points are written \<open>pointAge\<close>, the
  result's planning age \<open>resultPlanningAge\<close> and the snapshot's tax field
  \<open>snapshotCapitalGainsTax\<close>; every other name is the source's.
\<close>

record DecisionInputs =
  currentPropertyValue :: number
  currentPropertyAcb :: number
  currentMortgageBalance :: number
  currentCapRate :: number
  currentGrowthRate :: number
  newCapRate :: number
  newGrowthRate :: number
  marginalTaxRate :: number
  capitalGainsInclusionRate :: number
  realtorFeesPercent :: number
  propertyTransferTaxPercent :: number
  investmentAccountRoi :: number
  loanRate :: number
  loanAmortizationYears :: number
  clientAge :: number
  planningAge :: number
  newLoanToValue :: number
  decisionMarginPercent :: number

record YearlySnapshot =
  age :: int
  propertyValue :: real
  mortgageBalance :: real
  netIncome :: real
  taxPayable :: real
  cashFlow :: real
  investmentAccount :: real
  strategyValue :: real
  snapshotCapitalGainsTax :: real

record SeriesPoint =
  pointAge :: int
  currentValue :: real
  newValue :: real
  delta :: real

datatype Decision = YES | NO

text \<open>
  The reason is a sentence built around a currency-formatted amount and the planning age;
  the model keeps which of the two sentences it is, the amount and the age.
\<close>

datatype DecisionReason = NewStrategyExceeds real int | CurrentStrategyAhead real int

record DecisionResult =
  decision :: Decision
  decisionReason :: DecisionReason
  marginPercent :: real
  resultPlanningAge :: int
  currentAtPlanning :: YearlySnapshot
  newAtPlanning :: YearlySnapshot
  breakEvenAge :: "int option"
  peakDeltaAge :: "int option"
  peakDeltaValue :: real
  currentSeries :: "YearlySnapshot list"
  newSeries :: "YearlySnapshot list"
  series :: "SeriesPoint list"

definition calculateMonthlyPayment :: "number \<Rightarrow> number \<Rightarrow> number \<Rightarrow> real" where
  "calculateMonthlyPayment loanAmount annualRate termYears' =
     (let principal = safeNumber loanAmount
      in if principal \<le> 0 then 0
         else (let months = max 1 (Math_round (safeNumber termYears' * 12));
                   monthlyRate = safeNumber annualRate / 100 / 12
               in if monthlyRate \<le> 0 then principal / real_of_int months
                  else (let factor = (1 + monthlyRate) powi months
                        in (principal * monthlyRate * factor) / (factor - 1))))"

text \<open>
  \<open>years\<close> is a loop counter at the only call, so a natural number; \<open>type\<close> is 0 or 1.
\<close>

definition futureValue :: "number \<Rightarrow> nat \<Rightarrow> real \<Rightarrow> real \<Rightarrow> nat \<Rightarrow> real" where
  "futureValue annualRate years annualPayment presentValue type =
     (let rate = safeNumber annualRate / 100
      in if years = 0 then - presentValue
         else if rate = 0 then - (presentValue + annualPayment * real years)
         else (let factor = (1 + rate) ^ years
               in - (presentValue * factor +
                     annualPayment * (1 + rate * real type) * ((factor - 1) / rate))))"

record MortgageBalances =
  balances :: "real list"
  annualDebtService :: real

definition buildMortgageBalances :: "number \<Rightarrow> number \<Rightarrow> number \<Rightarrow> int \<Rightarrow> MortgageBalances" where
  "buildMortgageBalances startingBalance annualRate termYears' years =
     (let balance = max 0 (safeNumber startingBalance);
          monthlyPayment = calculateMonthlyPayment (Num balance) annualRate termYears';
          annualPayment = monthlyPayment * 12
      in \<lparr>balances =
            map (\<lambda>year. let nextBalance = - futureValue annualRate year (- annualPayment) balance 1
                        in max 0 nextBalance)
              [0 ..< nat years],
          annualDebtService = annualPayment\<rparr>)"

definition capitalGainsTax :: "number \<Rightarrow> number \<Rightarrow> number \<Rightarrow> number \<Rightarrow> real" where
  "capitalGainsTax value acb inclusionRate taxRate =
     (let gain = safeNumber value - safeNumber acb
      in gain * (safeNumber inclusionRate / 100) * (safeNumber taxRate / 100))"

subsection \<open>The set-up of calculateDecision\<close>

definition clientAgeOf :: "DecisionInputs \<Rightarrow> int" where
  "clientAgeOf input = Math_round (safeNumber (clientAge input))"

definition planningAgeOf :: "DecisionInputs \<Rightarrow> int" where
  "planningAgeOf input = max (clientAgeOf input) (Math_round (safeNumber (planningAge input)))"

definition yearsOf :: "DecisionInputs \<Rightarrow> int" where
  "yearsOf input = planningAgeOf input - clientAgeOf input + 1"

definition currentBalancesOf :: "DecisionInputs \<Rightarrow> MortgageBalances" where
  "currentBalancesOf input =
     buildMortgageBalances (currentMortgageBalance input) (loanRate input)
       (loanAmortizationYears input) (yearsOf input)"

definition netSaleProceedsOf :: "DecisionInputs \<Rightarrow> real" where
  "netSaleProceedsOf input =
     (let initialCapitalGainsTax =
            capitalGainsTax (currentPropertyValue input) (currentPropertyAcb input)
              (capitalGainsInclusionRate input) (marginalTaxRate input);
          totalSellCostsPercent =
            safeNumber (realtorFeesPercent input) + safeNumber (propertyTransferTaxPercent input);
          saleCosts = (totalSellCostsPercent / 100) * safeNumber (currentPropertyValue input)
      in max 0 (safeNumber (currentPropertyValue input) -
                safeNumber (currentMortgageBalance input) -
                initialCapitalGainsTax - saleCosts))"

definition newPropertyValueStartOf :: "DecisionInputs \<Rightarrow> real" where
  "newPropertyValueStartOf input =
     (let newLoanToValue' = safeNumber (newLoanToValue input) / 100
      in if newLoanToValue' \<ge> 1 then 0 else netSaleProceedsOf input / (1 - newLoanToValue'))"

definition newMortgageStartOf :: "DecisionInputs \<Rightarrow> real" where
  "newMortgageStartOf input =
     (let newLoanToValue' = safeNumber (newLoanToValue input) / 100
      in max 0 (newPropertyValueStartOf input * newLoanToValue'))"

definition newBalancesOf :: "DecisionInputs \<Rightarrow> MortgageBalances" where
  "newBalancesOf input =
     buildMortgageBalances (Num (newMortgageStartOf input)) (loanRate input)
       (loanAmortizationYears input) (yearsOf input)"

definition investmentGrowthOf :: "DecisionInputs \<Rightarrow> real" where
  "investmentGrowthOf input =
     (let afterTaxRoi =
            (safeNumber (investmentAccountRoi input) / 100) *
            (1 - safeNumber (marginalTaxRate input) / 100)
      in 1 + afterTaxRoi)"

subsection \<open>The simulation loop\<close>

text \<open>\<open>balances[index] ?? 0\<close>: a read past the end of the array yields 0.\<close>

definition nthOrZero :: "real list \<Rightarrow> nat \<Rightarrow> real" where
  "nthOrZero xs i = (if i < length xs then xs ! i else 0)"

text \<open>The variables the loop updates: the two investment accounts and the three arrays.\<close>

record Simulation =
  currentInvestment :: real
  newInvestment :: real
  currentSnapshots :: "YearlySnapshot list"
  newSnapshots :: "YearlySnapshot list"
  seriesPoints :: "SeriesPoint list"

definition simulateYear :: "DecisionInputs \<Rightarrow> Simulation \<Rightarrow> nat \<Rightarrow> Simulation" where
  "simulateYear input st index =
     (let age' = clientAgeOf input + int index;
          currentValue' =
            safeNumber (currentPropertyValue input) *
            (1 + safeNumber (currentGrowthRate input) / 100) ^ index;
          currentMortgage = nthOrZero (balances (currentBalancesOf input)) index;
          currentNetIncome = (safeNumber (currentCapRate input) / 100) * currentValue';
          currentInterestExpense = currentMortgage * (safeNumber (loanRate input) / 100);
          currentTax =
            (currentNetIncome - currentInterestExpense) *
            (safeNumber (marginalTaxRate input) / 100);
          currentCashFlow =
            currentNetIncome - currentTax - annualDebtService (currentBalancesOf input);
          currentInvestment' =
            currentInvestment st * investmentGrowthOf input + currentCashFlow;
          currentCapitalGainsTax =
            capitalGainsTax (Num currentValue') (currentPropertyAcb input)
              (capitalGainsInclusionRate input) (marginalTaxRate input);
          currentStrategyValue =
            currentValue' - currentMortgage - currentCapitalGainsTax + currentInvestment';
          newValue' =
            newPropertyValueStartOf input *
            (1 + safeNumber (newGrowthRate input) / 100) ^ index;
          newMortgage = nthOrZero (balances (newBalancesOf input)) index;
          newNetIncome = (safeNumber (newCapRate input) / 100) * newValue';
          newInterestExpense = newMortgage * (safeNumber (loanRate input) / 100);
          newTax =
            (newNetIncome - newInterestExpense) * (safeNumber (marginalTaxRate input) / 100);
          newCashFlow = newNetIncome - newTax - annualDebtService (newBalancesOf input);
          newInvestment' = newInvestment st * investmentGrowthOf input + newCashFlow;
          newStrategyValue = newValue' - newMortgage + newInvestment'
      in \<lparr>currentInvestment = currentInvestment',
          newInvestment = newInvestment',
          currentSnapshots = currentSnapshots st @
            [\<lparr>age = age', propertyValue = currentValue', mortgageBalance = currentMortgage,
              netIncome = currentNetIncome, taxPayable = currentTax, cashFlow = currentCashFlow,
              investmentAccount = currentInvestment', strategyValue = currentStrategyValue,
              snapshotCapitalGainsTax = currentCapitalGainsTax\<rparr>],
          newSnapshots = newSnapshots st @
            [\<lparr>age = age', propertyValue = newValue', mortgageBalance = newMortgage,
              netIncome = newNetIncome, taxPayable = newTax, cashFlow = newCashFlow,
              investmentAccount = newInvestment', strategyValue = newStrategyValue,
              snapshotCapitalGainsTax = 0\<rparr>],
          seriesPoints = seriesPoints st @
            [\<lparr>pointAge = age', currentValue = currentStrategyValue,
              newValue = newStrategyValue,
              delta = newStrategyValue - currentStrategyValue\<rparr>]\<rparr>)"

definition simulate :: "DecisionInputs \<Rightarrow> nat \<Rightarrow> Simulation" where
  "simulate input years =
     foldl (simulateYear input)
       \<lparr>currentInvestment = 0, newInvestment = 0, currentSnapshots = [], newSnapshots = [],
        seriesPoints = []\<rparr>
       [0 ..< years]"

subsection \<open>The scan of the series\<close>

text \<open>
  The three variables of the \<open>forEach\<close>: the break-even age, the peak delta, which starts
  at minus infinity, and its age. \<open>greaterThan d v\<close> is the comparison \<open>d > v\<close> of a finite
  \<open>d\<close> with a value that may still be minus infinity.
\<close>

record Scan =
  scanBreakEvenAge :: "int option"
  scanPeakDeltaValue :: number
  scanPeakDeltaAge :: "int option"

fun greaterThan :: "real \<Rightarrow> number \<Rightarrow> bool" where
  "greaterThan d (Num v) = (d > v)"
| "greaterThan d NegInfinity = True"
| "greaterThan d PosInfinity = False"
| "greaterThan d NaN = False"

definition scanPoint :: "Scan \<Rightarrow> SeriesPoint \<Rightarrow> Scan" where
  "scanPoint s point =
     (let s' = (if scanBreakEvenAge s = None \<and> delta point \<ge> 0
                then s\<lparr>scanBreakEvenAge := Some (pointAge point)\<rparr> else s)
      in if greaterThan (delta point) (scanPeakDeltaValue s')
         then s'\<lparr>scanPeakDeltaValue := Num (delta point),
                 scanPeakDeltaAge := Some (pointAge point)\<rparr>
         else s')"

definition scanSeries :: "SeriesPoint list \<Rightarrow> Scan" where
  "scanSeries points =
     foldl scanPoint
       \<lparr>scanBreakEvenAge = None, scanPeakDeltaValue = NegInfinity, scanPeakDeltaAge = None\<rparr>
       points"

subsection \<open>calculateDecision\<close>

text \<open>
  Reading \<open>strategyValue\<close> of an array element that does not exist raises a TypeError;
  this is the only operation of \<open>calculateDecision\<close> that can fail.
\<close>

datatype error = TypeError

definition calculateDecision :: "DecisionInputs \<Rightarrow> error + DecisionResult" where
  "calculateDecision input =
     (let planningAge' = planningAgeOf input;
          years = yearsOf input;
          sim = simulate input (nat years);
          planningIndex = years - 1
      in if 0 \<le> planningIndex \<and> nat planningIndex < length (currentSnapshots sim) \<and>
            nat planningIndex < length (newSnapshots sim)
         then
           (let currentAtPlanning' = currentSnapshots sim ! nat planningIndex;
                newAtPlanning' = newSnapshots sim ! nat planningIndex;
                marginPercent' = safeNumber (decisionMarginPercent input);
                threshold = strategyValue currentAtPlanning' * (1 + marginPercent' / 100);
                decision' = (if strategyValue newAtPlanning' \<ge> threshold then YES else NO);
                deltaAtPlanning =
                  strategyValue newAtPlanning' - strategyValue currentAtPlanning';
                scan = scanSeries (seriesPoints sim);
                decisionReason' =
                  (if decision' = YES then NewStrategyExceeds deltaAtPlanning planningAge'
                   else CurrentStrategyAhead \<bar>deltaAtPlanning\<bar> planningAge')
            in Inr \<lparr>decision = decision',
                    decisionReason = decisionReason',
                    marginPercent = marginPercent',
                    resultPlanningAge = planningAge',
                    currentAtPlanning = currentAtPlanning',
                    newAtPlanning = newAtPlanning',
                    breakEvenAge = scanBreakEvenAge scan,
                    peakDeltaAge = scanPeakDeltaAge scan,
                    peakDeltaValue =
                      (if Number_isFinite (scanPeakDeltaValue scan)
                       then safeNumber (scanPeakDeltaValue scan) else 0),
                    currentSeries = currentSnapshots sim,
                    newSeries = newSnapshots sim,
                    series = seriesPoints sim\<rparr>)
         else Inl TypeError)"

subsection \<open>The amortization trace in the words of the specification\<close>

text \<open>
  For the comparison with the balances \<open>buildMortgageBalances\<close> computes: the trace as the
  specification words it, period by period with interest \<open>balance * r\<close>, principal paid
  \<open>max 0 (payment - interest)\<close> and new balance \<open>max 0 (balance - principalPaid)\<close>;
  \<open>monthlyTraceBalance r pay balance k\<close> is the balance after \<open>k\<close> periods.
\<close>

fun monthlyTraceBalance :: "real \<Rightarrow> real \<Rightarrow> real \<Rightarrow> nat \<Rightarrow> real" where
  "monthlyTraceBalance r pay balance 0 = balance"
| "monthlyTraceBalance r pay balance (Suc k) =
     (let interest = balance * r;
          principalPaid = max 0 (pay - interest)
      in monthlyTraceBalance r pay (max 0 (balance - principalPaid)) k)"

section \<open>Concrete inputs\<close>

subsection \<open>Concrete mortgage inputs\<close>

text \<open>
  A zero-rate accelerated bi-weekly mortgage; the 800000 at 5.2 percent bi-weekly mortgage
  with a 25 year amortization and a 5 year term; a mortgage with non-finite fields; and a
  rent range and expenses for \<open>calculateInvestment\<close>.
\<close>

definition inputZeroRateAccelerated :: MortgageInputs where
  "inputZeroRateAccelerated =
     \<lparr>mortgageAmount = Num 31200, interestRate = Num 0, amortizationYears = Num 1,
      paymentFrequency = AcceleratedBiWeekly, termYears = Num 1\<rparr>"

definition inputScenarioA :: MortgageInputs where
  "inputScenarioA =
     \<lparr>mortgageAmount = Num 800000, interestRate = Num 5.2, amortizationYears = Num 25,
      paymentFrequency = BiWeekly, termYears = Num 5\<rparr>"

definition inputNaN :: MortgageInputs where
  "inputNaN =
     \<lparr>mortgageAmount = NaN, interestRate = Num 5.2, amortizationYears = PosInfinity,
      paymentFrequency = Weekly, termYears = Num 5\<rparr>"

definition rentExample :: RentRange where
  "rentExample = \<lparr>low = Num 2500, median = Num 3000, high = Num 3500, source = Manual\<rparr>"

definition expensesExample :: ExpenseInputs where
  "expensesExample =
     \<lparr>vacancyPercent = Num 0, maintenancePercent = Num 0, managementPercent = Num 0,
      reservesPercent = Num 0, insuranceAnnual = Num 1200, utilitiesAnnual = Num 1200,
      hoaMonthly = Num 300, propertyTaxAnnual = Num 0\<rparr>"

subsection \<open>Concrete decision inputs\<close>

text \<open>
  A three year plan with a mortgage of 100000 at 6 percent amortized over two years; a
  three year plan without any mortgage, where the new property earns more; the same with
  a planning age below the client age; and a four year plan whose new property loses value
  every year.
\<close>

definition inputThreeYears :: DecisionInputs where
  "inputThreeYears =
     \<lparr>currentPropertyValue = Num 1000000, currentPropertyAcb = Num 400000,
      currentMortgageBalance = Num 100000, currentCapRate = Num 4, currentGrowthRate = Num 3,
      newCapRate = Num 5, newGrowthRate = Num 3, marginalTaxRate = Num 50,
      capitalGainsInclusionRate = Num 50, realtorFeesPercent = Num 2,
      propertyTransferTaxPercent = Num 3, investmentAccountRoi = Num 5, loanRate = Num 6,
      loanAmortizationYears = Num 2, clientAge = Num 70, planningAge = Num 72,
      newLoanToValue = Num 50, decisionMarginPercent = Num 2\<rparr>"

definition inputNoMortgage :: DecisionInputs where
  "inputNoMortgage =
     \<lparr>currentPropertyValue = Num 1000000, currentPropertyAcb = Num 1000000,
      currentMortgageBalance = Num 0, currentCapRate = Num 2, currentGrowthRate = Num 2,
      newCapRate = Num 8, newGrowthRate = Num 2, marginalTaxRate = Num 50,
      capitalGainsInclusionRate = Num 50, realtorFeesPercent = Num 2,
      propertyTransferTaxPercent = Num 1, investmentAccountRoi = Num 5, loanRate = Num 6,
      loanAmortizationYears = Num 2, clientAge = Num 70, planningAge = Num 72,
      newLoanToValue = Num 0, decisionMarginPercent = Num 2\<rparr>"


definition inputDecliningNew :: DecisionInputs where
  "inputDecliningNew =
     \<lparr>currentPropertyValue = Num 1000000, currentPropertyAcb = Num 1000000,
      currentMortgageBalance = Num 0, currentCapRate = Num 2, currentGrowthRate = Num 2,
      newCapRate = Num 14, newGrowthRate = Num (- 4), marginalTaxRate = Num 50,
      capitalGainsInclusionRate = Num 50, realtorFeesPercent = Num 2,
      propertyTransferTaxPercent = Num 1, investmentAccountRoi = Num 0, loanRate = Num 6,
      loanAmortizationYears = Num 2, clientAge = Num 70, planningAge = Num 73,
      newLoanToValue = Num 0, decisionMarginPercent = Num 2\<rparr>"

section \<open>Properties of rentalVerdict.ts\<close>

subsection \<open>The amortization loop\<close>

lemma periodicRate_zero: "safeNumber r \<le> 0 \<Longrightarrow> periodicRate r f = 0"
  by (simp add: periodicRate_def)

lemma periodicRate_pos:
  assumes "0 < safeNumber r"
  shows "0 < periodicRate r f"
proof -
  have "1 < 1 + safeNumber r / 100 / 2" using assms by simp
  moreover have "0 < 2 / real (paymentsPerYear f)" by (cases f) simp_all
  ultimately have "1 < (1 + safeNumber r / 100 / 2) powr (2 / real (paymentsPerYear f))"
    using powr_less_mono2 [of "2 / real (paymentsPerYear f)" 1 "1 + safeNumber r / 100 / 2"] by simp
  then show ?thesis using assms by (simp add: periodicRate_def Let_def)
qed

lemma amortize_zero_rate:
  "snd (amortize 0 pay termPeriods i balance totalInterest) = totalInterest"
proof (induction "0::real" pay termPeriods i balance totalInterest rule: amortize.induct)
  case (1 pay termPeriods i balance totalInterest)
  show ?case
    by (subst amortize.simps) (simp add: Let_def 1)
qed

lemma amortize_fst_last:
  "fst (amortize rate pay termPeriods i balance totalInterest) =
   last (balanceTrace rate pay termPeriods i balance)"
proof (induction rate pay termPeriods i balance totalInterest rule: amortize.induct)
  case (1 rate pay termPeriods i balance totalInterest)
  show ?case
  proof (cases "i < termPeriods")
    case False
    then show ?thesis
      by (subst amortize.simps, subst balanceTrace.simps) simp
  next
    case True
    let ?b = "max 0 (balance - max 0 (pay - balance * rate))"
    show ?thesis
    proof (cases "?b = 0")
      case z: True
      with True show ?thesis
        by (subst amortize.simps, subst balanceTrace.simps) (simp add: Let_def)
    next
      case nz: False
      have ne: "balanceTrace rate pay termPeriods (Suc i) ?b \<noteq> []"
        by (subst balanceTrace.simps) simp
      from True nz ne 1 [OF True refl refl refl refl nz] show ?thesis
        by (subst amortize.simps, subst balanceTrace.simps) (simp add: Let_def)
    qed
  qed
qed

lemma balanceTrace_unfold:
  "balanceTrace rate pay termPeriods i balance =
     balance #
     (if i < termPeriods then
        (if max 0 (balance - max 0 (pay - balance * rate)) = 0
         then [max 0 (balance - max 0 (pay - balance * rate))]
         else balanceTrace rate pay termPeriods (Suc i) (max 0 (balance - max 0 (pay - balance * rate))))
      else [])"
  by (subst balanceTrace.simps) (simp add: Let_def)

lemma step_bounds:
  "0 \<le> balance \<Longrightarrow> 0 \<le> max 0 (balance - max 0 (pay - balance * rate)) \<and>
     max 0 (balance - max 0 (pay - balance * (rate::real))) \<le> balance"
  by auto

lemma balanceTrace_bounds:
  "0 \<le> balance \<Longrightarrow> \<forall>b \<in> set (balanceTrace rate pay termPeriods i balance). 0 \<le> b \<and> b \<le> balance"
proof (induction rate pay termPeriods i balance rule: balanceTrace.induct)
  case (1 rate pay termPeriods i balance)
  define b' where "b' = max 0 (balance - max 0 (pay - balance * rate))"
  have b: "0 \<le> b'" "b' \<le> balance"
    using step_bounds [OF "1.prems", of pay rate] by (simp_all add: b'_def)
  have unf: "balanceTrace rate pay termPeriods i balance =
     balance # (if i < termPeriods then (if b' = 0 then [b'] else balanceTrace rate pay termPeriods (Suc i) b') else [])"
    unfolding b'_def by (rule balanceTrace_unfold)
  show ?case
  proof (cases "i < termPeriods \<and> b' \<noteq> 0")
    case False
    then show ?thesis using b "1.prems" unfolding unf by auto
  next
    case True
    then have "\<forall>x \<in> set (balanceTrace rate pay termPeriods (Suc i) b'). 0 \<le> x \<and> x \<le> b'"
      using "1.IH" [OF _ refl refl refl] b(1) unfolding b'_def by blast
    then have ih: "\<forall>x \<in> set (balanceTrace rate pay termPeriods (Suc i) b'). 0 \<le> x \<and> x \<le> balance"
      using b(2) by fastforce
    show ?thesis using True ih "1.prems" unfolding unf by simp
  qed
qed

lemma balanceTrace_sorted:
  "0 \<le> balance \<Longrightarrow> sorted_wrt (\<ge>) (balanceTrace rate pay termPeriods i balance)"
proof (induction rate pay termPeriods i balance rule: balanceTrace.induct)
  case (1 rate pay termPeriods i balance)
  define b' where "b' = max 0 (balance - max 0 (pay - balance * rate))"
  have b: "0 \<le> b'" "b' \<le> balance"
    using step_bounds [OF "1.prems", of pay rate] by (simp_all add: b'_def)
  have unf: "balanceTrace rate pay termPeriods i balance =
     balance # (if i < termPeriods then (if b' = 0 then [b'] else balanceTrace rate pay termPeriods (Suc i) b') else [])"
    unfolding b'_def by (rule balanceTrace_unfold)
  show ?case
  proof (cases "i < termPeriods \<and> b' \<noteq> 0")
    case False
    then show ?thesis using b unfolding unf by auto
  next
    case True
    then have ih: "sorted_wrt (\<ge>) (balanceTrace rate pay termPeriods (Suc i) b')"
      using "1.IH" [OF _ refl refl refl] b(1) unfolding b'_def by blast
    have "\<forall>x \<in> set (balanceTrace rate pay termPeriods (Suc i) b'). 0 \<le> x \<and> x \<le> b'"
      by (rule balanceTrace_bounds [OF b(1)])
    then have bd: "\<forall>x \<in> set (balanceTrace rate pay termPeriods (Suc i) b'). x \<le> balance"
      using b(2) by fastforce
    show ?thesis using True ih bd unfolding unf by simp
  qed
qed

lemma annuity_step:
  fixes P r Q x :: real
  assumes "0 < r" "0 < P" "1 < Q" "1 \<le> x" "(1 + r) * x \<le> Q"
  shows "max 0 (P * (Q - x) / (Q - 1) - max 0 (P * r / (1 - inverse Q) - P * (Q - x) / (Q - 1) * r))
         = P * (Q - (1 + r) * x) / (Q - 1)"
proof -
  have Q: "0 < Q - 1" "Q \<noteq> 0" using assms by simp_all
  have pay: "P * r / (1 - inverse Q) = P * r * Q / (Q - 1)"
    using Q assms by (simp add: field_simps)
  have "P * r * Q / (Q - 1) - P * (Q - x) / (Q - 1) * r = (P * r * Q - P * (Q - x) * r) / (Q - 1)"
    by (simp add: diff_divide_distrib)
  also have "P * r * Q - P * (Q - x) * r = P * r * x" by (simp add: algebra_simps)
  finally have d: "P * r * Q / (Q - 1) - P * (Q - x) / (Q - 1) * r = P * r * x / (Q - 1)" .
  have nn: "0 \<le> P * r * x / (Q - 1)" using assms Q by simp
  have "P * (Q - x) / (Q - 1) - P * r * x / (Q - 1) = (P * (Q - x) - P * r * x) / (Q - 1)"
    by (simp add: diff_divide_distrib)
  also have "P * (Q - x) - P * r * x = P * (Q - (1 + r) * x)" by (simp add: algebra_simps)
  finally have e: "P * (Q - x) / (Q - 1) - P * r * x / (Q - 1) = P * (Q - (1 + r) * x) / (Q - 1)" .
  have nn2: "0 \<le> P * (Q - (1 + r) * x) / (Q - 1)" using assms Q by simp
  show ?thesis unfolding pay d using nn nn2 e by simp
qed

lemma annuity_trace:
  fixes P r :: real
  assumes r: "0 < r" and P: "0 < P" and i: "i < N" "i \<le> T"
  shows "balanceTrace r (P * r / (1 - inverse ((1 + r) ^ N))) T i (P * ((1 + r) ^ N - (1 + r) ^ i) / ((1 + r) ^ N - 1))
       = map (\<lambda>k. P * ((1 + r) ^ N - (1 + r) ^ k) / ((1 + r) ^ N - 1)) [i ..< Suc (min T N)]"
  using i
proof (induction "N - i" arbitrary: i)
  case 0
  then show ?case by simp
next
  case (Suc d)
  let ?q = "1 + r"
  let ?c = "\<lambda>k. P * (?q ^ N - ?q ^ k) / (?q ^ N - 1)"
  let ?pay = "P * r / (1 - inverse (?q ^ N))"
  have N: "0 < N" using Suc.prems by simp
  have Q: "1 < ?q ^ N" using r N by (simp add: one_less_power)
  have x: "1 \<le> ?q ^ i" using r by (simp add: one_le_power)
  have qx: "?q * ?q ^ i \<le> ?q ^ N"
  proof -
    have "?q ^ Suc i \<le> ?q ^ N" using r Suc.prems by (intro power_increasing) simp_all
    then show ?thesis by simp
  qed
  have step: "max 0 (?c i - max 0 (?pay - ?c i * r)) = ?c (Suc i)"
    using annuity_step [OF r P Q x qx] by simp
  show ?case
  proof (cases "i < T")
    case False
    then have "i = T" using Suc.prems by simp
    then have m: "min T N = i" using Suc.prems by simp
    show ?thesis using False unfolding m by (subst balanceTrace_unfold) simp
  next
    case True
    show ?thesis
    proof (cases "Suc i = N")
      case e: True
      then have z: "?c (Suc i) = 0" by simp
      have m: "min T N = Suc i" using True e by simp
      have u: "[i ..< Suc (Suc i)] = [i, Suc i]" by (simp add: upt_rec)
      show ?thesis unfolding m u
        by (subst balanceTrace_unfold) (simp only: step True z if_True list.map simp_thms)
    next
      case ne: False
      then have lt: "Suc i < N" using Suc.prems by simp
      have "?q ^ Suc i < ?q ^ N" using r lt by (intro power_strict_increasing) simp_all
      then have nz: "?c (Suc i) \<noteq> 0" using P Q by simp
      have d: "d = N - Suc i" using Suc.hyps(2) by simp
      have ih: "balanceTrace r ?pay T (Suc i) (?c (Suc i)) = map ?c [Suc i ..< Suc (min T N)]"
        using Suc.hyps(1) [OF d lt] True by simp
      have u: "[i ..< Suc (min T N)] = i # [Suc i ..< Suc (min T N)]"
        using True lt by (simp add: upt_rec)
      show ?thesis unfolding u
        by (subst balanceTrace_unfold) (simp only: step True nz if_True if_False ih list.map)
    qed
  qed
qed

lemma periodsOf_pos: "1 \<le> periodsOf input"
  by (simp add: periodsOf_def)

lemma termPeriodsOf_pos: "1 \<le> termPeriodsOf input"
  by (simp add: termPeriodsOf_def)

lemma calculateMortgage_fields:
  assumes "0 < safeNumber (mortgageAmount input)"
  shows "payment (calculateMortgage input) = paymentOf input"
    and "totalInterestTerm (calculateMortgage input) =
           snd (amortize (periodicRate (interestRate input) (paymentFrequency input))
                  (paymentOf input) (nat (termPeriodsOf input)) 0 (principalOf input) 0)"
    and "balanceAfterTerm (calculateMortgage input) = last (mortgageBalances input)"
  using assms
  by (simp_all add: calculateMortgage_def principalOf_def Let_def split_beta
      mortgageBalances_def amortize_fst_last)

lemma mortgageBalances_annuity:
  assumes P: "0 < safeNumber (mortgageAmount input)"
    and R: "0 < safeNumber (interestRate input)"
    and F: "paymentFrequency input \<noteq> AcceleratedBiWeekly" "paymentFrequency input \<noteq> AcceleratedWeekly"
  shows "mortgageBalances input =
     map (\<lambda>k. safeNumber (mortgageAmount input) *
                ((1 + periodicRate (interestRate input) (paymentFrequency input)) ^ nat (periodsOf input) -
                 (1 + periodicRate (interestRate input) (paymentFrequency input)) ^ k) /
                ((1 + periodicRate (interestRate input) (paymentFrequency input)) ^ nat (periodsOf input) - 1))
         [0 ..< Suc (min (nat (termPeriodsOf input)) (nat (periodsOf input)))]"
proof -
  define r where "r = periodicRate (interestRate input) (paymentFrequency input)"
  define N where "N = nat (periodsOf input)"
  define A where "A = safeNumber (mortgageAmount input)"
  have r: "0 < r" unfolding r_def by (rule periodicRate_pos [OF R])
  have N: "0 < N" "periodsOf input = int N"
    using periodsOf_pos [of input] by (simp_all add: N_def)
  have Q: "1 < (1 + r) ^ N" using r N by (simp add: one_less_power)
  have pw: "(1 + r) powi (- periodsOf input) = inverse ((1 + r) ^ N)"
    unfolding N(2) by (simp add: power_int_minus)
  have pay: "paymentOf input = A * r / (1 - inverse ((1 + r) ^ N))"
    using F r P by (simp add: paymentOf_def basePaymentOf_def Let_def r_def [symmetric] pw
        principalOf_def A_def)
  have start: "principalOf input = A * ((1 + r) ^ N - (1 + r) ^ 0) / ((1 + r) ^ N - 1)"
    using P Q by (simp add: principalOf_def A_def)
  have "mortgageBalances input =
      balanceTrace r (A * r / (1 - inverse ((1 + r) ^ N))) (nat (termPeriodsOf input)) 0
        (A * ((1 + r) ^ N - (1 + r) ^ 0) / ((1 + r) ^ N - 1))"
    unfolding mortgageBalances_def r_def [symmetric] pay start [symmetric] ..
  also have "\<dots> = map (\<lambda>k. A * ((1 + r) ^ N - (1 + r) ^ k) / ((1 + r) ^ N - 1))
       [0 ..< Suc (min (nat (termPeriodsOf input)) N)]"
    using P by (intro annuity_trace [OF r _ N(1)]) (simp_all add: A_def)
  finally show ?thesis unfolding r_def N_def A_def .
qed

text \<open>
  The closed form above is one of exact arithmetic. It is used for one thing only: before
  period n the balance is positive. The program computes in doubles, where a rounding
  residual can remain at period n, so nothing below states that the balance reaches 0.
\<close>

lemma balanceTrace_length:
  "length (balanceTrace rate pay termPeriods i balance) \<le> Suc (termPeriods - i)"
proof (induction rate pay termPeriods i balance rule: balanceTrace.induct)
  case (1 rate pay termPeriods i balance)
  define b' where "b' = max 0 (balance - max 0 (pay - balance * rate))"
  have unf: "balanceTrace rate pay termPeriods i balance =
     balance # (if i < termPeriods then (if b' = 0 then [b'] else balanceTrace rate pay termPeriods (Suc i) b') else [])"
    unfolding b'_def by (rule balanceTrace_unfold)
  show ?case
  proof (cases "i < termPeriods \<and> b' \<noteq> 0")
    case False
    then show ?thesis unfolding unf by auto
  next
    case True
    then have "length (balanceTrace rate pay termPeriods (Suc i) b') \<le> Suc (termPeriods - Suc i)"
      using "1.IH" [OF _ refl refl refl] unfolding b'_def by blast
    moreover have "Suc (termPeriods - Suc i) = termPeriods - i" using True by arith
    ultimately show ?thesis using True unfolding unf by simp
  qed
qed

lemma balanceTrace_zero_last:
  "balance \<noteq> 0 \<Longrightarrow> Suc k < length (balanceTrace rate pay termPeriods i balance) \<Longrightarrow>
     balanceTrace rate pay termPeriods i balance ! k \<noteq> 0"
proof (induction rate pay termPeriods i balance arbitrary: k rule: balanceTrace.induct)
  case (1 rate pay termPeriods i balance)
  define b' where "b' = max 0 (balance - max 0 (pay - balance * rate))"
  have unf: "balanceTrace rate pay termPeriods i balance =
     balance # (if i < termPeriods then (if b' = 0 then [b'] else balanceTrace rate pay termPeriods (Suc i) b') else [])"
    unfolding b'_def by (rule balanceTrace_unfold)
  show ?case
  proof (cases k)
    case 0
    then show ?thesis using "1.prems"(1) unfolding unf by simp
  next
    case (Suc j)
    show ?thesis
    proof (cases "i < termPeriods \<and> b' \<noteq> 0")
      case False
      then show ?thesis using "1.prems"(2) Suc unfolding unf by (auto split: if_splits)
    next
      case True
      have len: "Suc j < length (balanceTrace rate pay termPeriods (Suc i) b')"
        using "1.prems"(2) True Suc unfolding unf by simp
      have "balanceTrace rate pay termPeriods (Suc i) b' ! j \<noteq> 0"
        using "1.IH" [OF _ refl refl refl, of j] True len unfolding b'_def by blast
      then show ?thesis using True Suc unfolding unf by simp
    qed
  qed
qed

lemma balanceTrace_not_Nil: "balanceTrace rate pay termPeriods i balance \<noteq> []"
  by (subst balanceTrace.simps) simp

lemma balanceTrace_two:
  "i < termPeriods \<Longrightarrow> Suc 0 < length (balanceTrace rate pay termPeriods i balance)"
  using balanceTrace_not_Nil [of rate pay termPeriods "Suc i"]
  by (subst balanceTrace_unfold) (simp add: Suc_lessI)

lemma mortgageBalances_positive:
  assumes P: "0 < safeNumber (mortgageAmount input)"
    and R: "0 < safeNumber (interestRate input)"
    and F: "paymentFrequency input \<noteq> AcceleratedBiWeekly" "paymentFrequency input \<noteq> AcceleratedWeekly"
    and k: "k < length (mortgageBalances input)" "k < nat (periodsOf input)"
  shows "0 < mortgageBalances input ! k"
proof -
  define r where "r = periodicRate (interestRate input) (paymentFrequency input)"
  define N where "N = nat (periodsOf input)"
  define T where "T = nat (termPeriodsOf input)"
  define A where "A = safeNumber (mortgageAmount input)"
  have eq: "mortgageBalances input =
     map (\<lambda>k. A * ((1 + r) ^ N - (1 + r) ^ k) / ((1 + r) ^ N - 1)) [0 ..< Suc (min T N)]"
    unfolding r_def N_def T_def A_def by (rule mortgageBalances_annuity [OF P R F])
  have r: "0 < r" unfolding r_def by (rule periodicRate_pos [OF R])
  have N: "0 < N" using periodsOf_pos [of input] by (simp add: N_def)
  have Q: "1 < (1 + r) ^ N" using r N by (simp add: one_less_power)
  have kl: "k < Suc (min T N)" using k(1) unfolding eq by simp
  have nth: "mortgageBalances input ! k = A * ((1 + r) ^ N - (1 + r) ^ k) / ((1 + r) ^ N - 1)"
    unfolding eq using kl by (subst nth_map) (simp_all del: upt_Suc)
  have "(1 + r) ^ k < (1 + r) ^ N"
    using r k(2) unfolding N_def by (intro power_strict_increasing) simp_all
  then show ?thesis unfolding nth using P Q by (simp add: A_def)
qed

lemma basePaymentOf_accelerated:
  "basePaymentOf (input\<lparr>paymentFrequency := AcceleratedBiWeekly\<rparr>) =
     basePaymentOf (input\<lparr>paymentFrequency := BiWeekly\<rparr>)"
  "basePaymentOf (input\<lparr>paymentFrequency := AcceleratedWeekly\<rparr>) =
     basePaymentOf (input\<lparr>paymentFrequency := Weekly\<rparr>)"
  by (simp_all add: basePaymentOf_def principalOf_def periodsOf_def periodicRate_def)

lemma calculateMortgage_payment:
  "payment (calculateMortgage input) = (if principalOf input = 0 then 0 else paymentOf input)"
  by (simp add: calculateMortgage_def Let_def split_beta)

subsection \<open>Claims about calculateMortgage and calculateInvestment\<close>

text \<open>
  C1. The claim: under an accelerated frequency the payment is one half (bi-weekly) or one
  quarter (weekly) of the payment the same principal, rate and amortization give under the
  monthly frequency. The code divides the base payment of the accelerated frequency itself
  (26 or 52 periods a year), not the monthly one: for every input the accelerated
  bi-weekly payment is half of the plain bi-weekly payment and the accelerated weekly
  payment a quarter of the plain weekly one. On 31200 at a zero rate over one year the
  accelerated bi-weekly payment is 600, while half of the monthly payment of 2600 is 1300.
\<close>

theorem accelerated_payment_not_half_monthly:
  "payment (calculateMortgage (input\<lparr>paymentFrequency := AcceleratedBiWeekly\<rparr>)) =
     payment (calculateMortgage (input\<lparr>paymentFrequency := BiWeekly\<rparr>)) / 2 \<and>
   payment (calculateMortgage (input\<lparr>paymentFrequency := AcceleratedWeekly\<rparr>)) =
     payment (calculateMortgage (input\<lparr>paymentFrequency := Weekly\<rparr>)) / 4 \<and>
   payment (calculateMortgage inputZeroRateAccelerated) = 600 \<and>
   payment (calculateMortgage (inputZeroRateAccelerated\<lparr>paymentFrequency := Monthly\<rparr>)) / 2 = 1300"
proof -
  have p: "principalOf (input\<lparr>paymentFrequency := f\<rparr>) = principalOf input" for f
    by (simp add: principalOf_def)
  have g: "payment (calculateMortgage (input\<lparr>paymentFrequency := AcceleratedBiWeekly\<rparr>)) =
     payment (calculateMortgage (input\<lparr>paymentFrequency := BiWeekly\<rparr>)) / 2"
    "payment (calculateMortgage (input\<lparr>paymentFrequency := AcceleratedWeekly\<rparr>)) =
     payment (calculateMortgage (input\<lparr>paymentFrequency := Weekly\<rparr>)) / 4"
    by (simp_all add: calculateMortgage_payment p paymentOf_def basePaymentOf_accelerated)
  have e: "payment (calculateMortgage inputZeroRateAccelerated) = 600"
    "payment (calculateMortgage (inputZeroRateAccelerated\<lparr>paymentFrequency := Monthly\<rparr>)) / 2 = 1300"
    by (simp_all add: calculateMortgage_def inputZeroRateAccelerated_def principalOf_def paymentOf_def
        basePaymentOf_def periodsOf_def Math_round_def periodicRate_zero Let_def split_beta)
  show ?thesis using g e by simp
qed

text \<open>
  C7, as stated, fails: at a zero rate the accelerated bi-weekly payment is not the principal
  divided by the number of periods.
\<close>

theorem zero_rate_payment_counterexample:
  "safeNumber (interestRate inputZeroRateAccelerated) = 0 \<and>
   0 < safeNumber (mortgageAmount inputZeroRateAccelerated) \<and>
   payment (calculateMortgage inputZeroRateAccelerated) \<noteq>
     safeNumber (mortgageAmount inputZeroRateAccelerated) /
       real_of_int (periodsOf inputZeroRateAccelerated)"
  by (simp add: calculateMortgage_def inputZeroRateAccelerated_def principalOf_def paymentOf_def
      basePaymentOf_def periodsOf_def Math_round_def periodicRate_zero Let_def split_beta)

text \<open>
  C7, amended. For a zero annual rate and a positive principal the total interest over the
  term is 0 under every payment frequency, and under the four frequencies that are not
  accelerated the payment is the principal divided by the rounded number of amortization
  periods.
\<close>

theorem calculateMortgage_zero_rate:
  assumes "safeNumber (interestRate input) = 0" and "0 < safeNumber (mortgageAmount input)"
  shows "totalInterestTerm (calculateMortgage input) = 0 \<and>
    (paymentFrequency input \<noteq> AcceleratedBiWeekly \<and> paymentFrequency input \<noteq> AcceleratedWeekly \<longrightarrow>
       payment (calculateMortgage input) =
         safeNumber (mortgageAmount input) / real_of_int (periodsOf input))"
  using assms
  by (simp add: calculateMortgage_fields periodicRate_zero amortize_zero_rate paymentOf_def
      basePaymentOf_def principalOf_def Let_def)

theorem calculateMortgage_zero_rate_witness:
  "safeNumber (interestRate (inputZeroRateAccelerated\<lparr>paymentFrequency := Monthly\<rparr>)) = 0 \<and>
   0 < safeNumber (mortgageAmount (inputZeroRateAccelerated\<lparr>paymentFrequency := Monthly\<rparr>)) \<and>
   paymentFrequency (inputZeroRateAccelerated\<lparr>paymentFrequency := Monthly\<rparr>) \<noteq> AcceleratedBiWeekly \<and>
   paymentFrequency (inputZeroRateAccelerated\<lparr>paymentFrequency := Monthly\<rparr>) \<noteq> AcceleratedWeekly \<and>
   totalInterestTerm (calculateMortgage (inputZeroRateAccelerated\<lparr>paymentFrequency := Monthly\<rparr>)) = 0 \<and>
   payment (calculateMortgage (inputZeroRateAccelerated\<lparr>paymentFrequency := Monthly\<rparr>)) = 2600"
  using calculateMortgage_zero_rate [of "inputZeroRateAccelerated\<lparr>paymentFrequency := Monthly\<rparr>"]
  by (simp add: inputZeroRateAccelerated_def periodsOf_def Math_round_def)

text \<open>
  C8, as stated, fails: with a positive principal, rate and term, the loop runs over the
  contractual term only, and on the 25 year amortization with a 5 year term the balance
  sequence never reaches 0.
\<close>

theorem amortization_reaches_zero_counterexample:
  "0 < safeNumber (mortgageAmount inputScenarioA) \<and>
   0 < safeNumber (interestRate inputScenarioA) \<and>
   0 < safeNumber (termYears inputScenarioA) \<and>
   0 \<notin> set (mortgageBalances inputScenarioA)"
proof -
  have P: "0 < safeNumber (mortgageAmount inputScenarioA)"
    and R: "0 < safeNumber (interestRate inputScenarioA)"
    and F: "paymentFrequency inputScenarioA \<noteq> AcceleratedBiWeekly"
           "paymentFrequency inputScenarioA \<noteq> AcceleratedWeekly"
    by (simp_all add: inputScenarioA_def)
  have per: "periodsOf inputScenarioA = 650" "termPeriodsOf inputScenarioA = 130"
    by (simp_all add: periodsOf_def termPeriodsOf_def inputScenarioA_def Math_round_def)
  have len: "length (mortgageBalances inputScenarioA) \<le> 131"
    unfolding mortgageBalances_def
    using balanceTrace_length [of _ _ "nat (termPeriodsOf inputScenarioA)" 0] per by simp
  have "mortgageBalances inputScenarioA ! k \<noteq> 0" if "k < length (mortgageBalances inputScenarioA)" for k
  proof -
    have "k < nat (periodsOf inputScenarioA)" using that len per by simp
    then have "0 < mortgageBalances inputScenarioA ! k"
      by (rule mortgageBalances_positive [OF P R F that])
    then show ?thesis by simp
  qed
  then have "0 \<notin> set (mortgageBalances inputScenarioA)"
    by (metis in_set_conv_nth)
  then show ?thesis by (simp add: inputScenarioA_def)
qed

text \<open>
  C8, amended. For a positive principal the balance sequence of the loop, the starting
  balance followed by the balance after each period the loop runs, is non-increasing and
  never negative, and its last entry is the returned balance after the term. The loop
  runs over the contractual term only: the sequence has at most one entry per period of
  the term after the starting balance, and a balance of 0 ends it, so that 0 can only be
  its last entry. That the sequence reaches 0 is not part of the statement.
\<close>

theorem amortization_balance_sequence:
  assumes "0 < safeNumber (mortgageAmount input)"
  shows "sorted_wrt (\<ge>) (mortgageBalances input) \<and>
    (\<forall>b \<in> set (mortgageBalances input). 0 \<le> b) \<and>
    balanceAfterTerm (calculateMortgage input) = last (mortgageBalances input) \<and>
    length (mortgageBalances input) \<le> Suc (nat (termPeriodsOf input)) \<and>
    (\<forall>k. Suc k < length (mortgageBalances input) \<longrightarrow> mortgageBalances input ! k \<noteq> 0)"
proof -
  have nn: "0 \<le> principalOf input" by (simp add: principalOf_def)
  have nz: "principalOf input \<noteq> 0" using assms by (simp add: principalOf_def)
  have s: "sorted_wrt (\<ge>) (mortgageBalances input)"
    unfolding mortgageBalances_def by (rule balanceTrace_sorted [OF nn])
  have b: "\<forall>b \<in> set (mortgageBalances input). 0 \<le> b"
    unfolding mortgageBalances_def using balanceTrace_bounds [OF nn] by blast
  have l: "balanceAfterTerm (calculateMortgage input) = last (mortgageBalances input)"
    by (rule calculateMortgage_fields [OF assms])
  have n: "length (mortgageBalances input) \<le> Suc (nat (termPeriodsOf input))"
    unfolding mortgageBalances_def
    using balanceTrace_length [of _ _ "nat (termPeriodsOf input)" 0] by simp
  have z: "mortgageBalances input ! k \<noteq> 0" if "Suc k < length (mortgageBalances input)" for k
    using that unfolding mortgageBalances_def by (rule balanceTrace_zero_last [OF nz])
  show ?thesis using s b l n z by blast
qed

theorem amortization_balance_sequence_witness:
  "0 < safeNumber (mortgageAmount inputScenarioA) \<and>
   sorted_wrt (\<ge>) (mortgageBalances inputScenarioA) \<and>
   0 \<le> last (mortgageBalances inputScenarioA) \<and>
   balanceAfterTerm (calculateMortgage inputScenarioA) = last (mortgageBalances inputScenarioA) \<and>
   length (mortgageBalances inputScenarioA) \<le> 131 \<and>
   mortgageBalances inputScenarioA ! 0 \<noteq> 0"
proof -
  have h: "0 < safeNumber (mortgageAmount inputScenarioA)"
    by (simp add: inputScenarioA_def)
  have per: "termPeriodsOf inputScenarioA = 130"
    by (simp add: termPeriodsOf_def inputScenarioA_def Math_round_def)
  note t = amortization_balance_sequence [OF h]
  have ne: "mortgageBalances inputScenarioA \<noteq> []"
    unfolding mortgageBalances_def by (rule balanceTrace_not_Nil)
  then have "last (mortgageBalances inputScenarioA) \<in> set (mortgageBalances inputScenarioA)"
    by (rule last_in_set)
  then have nn: "0 \<le> last (mortgageBalances inputScenarioA)" using t by blast
  have len: "length (mortgageBalances inputScenarioA) \<le> 131" using t per by simp
  have two: "Suc 0 < length (mortgageBalances inputScenarioA)"
    unfolding mortgageBalances_def by (rule balanceTrace_two) (simp add: per)
  have first: "mortgageBalances inputScenarioA ! 0 \<noteq> 0" using t two by blast
  show ?thesis using h t nn len first by blast
qed

text \<open>
  C9. \<open>calculateMortgage\<close> has no failing branch: it is a total function to a result
  record. A non-finite field counts as 0: the result is that of the input whose fields
  are replaced by their \<open>safeNumber\<close> values. Whenever the mortgage amount is non-finite
  or at most 0, the payment, the total interest and the balance after the term are all 0.
\<close>

theorem calculateMortgage_degenerate:
  "calculateMortgage input =
     calculateMortgage (input\<lparr>mortgageAmount := Num (safeNumber (mortgageAmount input)),
        interestRate := Num (safeNumber (interestRate input)),
        amortizationYears := Num (safeNumber (amortizationYears input)),
        termYears := Num (safeNumber (termYears input))\<rparr>) \<and>
   (\<not> Number_isFinite (mortgageAmount input) \<or> safeNumber (mortgageAmount input) \<le> 0 \<longrightarrow>
      calculateMortgage input = \<lparr>payment = 0, totalInterestTerm = 0, balanceAfterTerm = 0\<rparr>)"
proof -
  have a: "\<not> Number_isFinite v \<Longrightarrow> safeNumber v = 0" for v
    by (cases v) simp_all
  show ?thesis
    by (auto simp add: calculateMortgage_def principalOf_def paymentOf_def basePaymentOf_def
      periodsOf_def termPeriodsOf_def periodicRate_def Let_def a)
qed

theorem calculateMortgage_degenerate_witness:
  "\<not> Number_isFinite (mortgageAmount inputNaN) \<and>
   calculateMortgage inputNaN = \<lparr>payment = 0, totalInterestTerm = 0, balanceAfterTerm = 0\<rparr> \<and>
   calculateMortgage inputNaN =
     calculateMortgage \<lparr>mortgageAmount = Num 0, interestRate = Num 5.2, amortizationYears = Num 0,
        paymentFrequency = Weekly, termYears = Num 5\<rparr>"
  using calculateMortgage_degenerate [of inputNaN]
  by (auto simp add: inputNaN_def)

text \<open>
  C10. The verdict of \<open>calculateInvestment\<close> is Excellent exactly when the returned cap rate
  is at least 0.045, Good exactly when it is at least 0.03 and below 0.045, and Weak
  exactly when it is below 0.03; for a finite price the cap rate is the net operating
  income over the price when the price is positive, and 0 otherwise.
\<close>

theorem calculateInvestment_verdict:
  "(verdict (calculateInvestment price rentRange expenses mpa) = Excellent \<longleftrightarrow>
      capRate (calculateInvestment price rentRange expenses mpa) \<ge> 0.045) \<and>
   (verdict (calculateInvestment price rentRange expenses mpa) = Good \<longleftrightarrow>
      0.03 \<le> capRate (calculateInvestment price rentRange expenses mpa) \<and>
      capRate (calculateInvestment price rentRange expenses mpa) < 0.045) \<and>
   (verdict (calculateInvestment price rentRange expenses mpa) = Weak \<longleftrightarrow>
      capRate (calculateInvestment price rentRange expenses mpa) < 0.03) \<and>
   capRate (calculateInvestment (Num p) rentRange expenses mpa) =
     (if 0 < p then noiAnnual (calculateInvestment (Num p) rentRange expenses mpa) / p else 0)"
  by (simp add: calculateInvestment_def Let_def)

theorem calculateInvestment_verdict_witness:
  "verdict (calculateInvestment (Num 500000) rentExample expensesExample (Num 24000)) = Excellent \<and>
   capRate (calculateInvestment (Num 500000) rentExample expensesExample (Num 24000)) = 0.06 \<and>
   noiAnnual (calculateInvestment (Num 500000) rentExample expensesExample (Num 24000)) = 30000"
  using calculateInvestment_verdict [of "Num 500000" rentExample expensesExample "Num 24000" 500000]
  by (simp add: calculateInvestment_def noiOf_def rentExample_def expensesExample_def Let_def)

section \<open>Properties of sellDecision.ts\<close>

subsection \<open>The simulation loop\<close>

lemma simulate_0:
  "simulate input 0 = \<lparr>currentInvestment = 0, newInvestment = 0, currentSnapshots = [],
     newSnapshots = [], seriesPoints = []\<rparr>"
  by (simp add: simulate_def)

lemma simulate_Suc: "simulate input (Suc n) = simulateYear input (simulate input n) n"
  by (simp add: simulate_def)

lemma simulateYear_currentSnapshots:
  "\<exists>c. currentSnapshots (simulateYear input st index) = currentSnapshots st @ [c] \<and>
       age c = clientAgeOf input + int index \<and>
       mortgageBalance c = nthOrZero (balances (currentBalancesOf input)) index \<and>
       cashFlow c = netIncome c - taxPayable c - annualDebtService (currentBalancesOf input)"
  by (simp add: simulateYear_def Let_def)

lemma simulateYear_newSnapshots:
  "\<exists>c. newSnapshots (simulateYear input st index) = newSnapshots st @ [c] \<and>
       age c = clientAgeOf input + int index"
  by (simp add: simulateYear_def Let_def)

lemma simulateYear_seriesPoints:
  "\<exists>p. seriesPoints (simulateYear input st index) = seriesPoints st @ [p] \<and>
       pointAge p = clientAgeOf input + int index \<and>
       delta p = newValue p - currentValue p \<and>
       currentValue p = strategyValue (last (currentSnapshots (simulateYear input st index))) \<and>
       newValue p = strategyValue (last (newSnapshots (simulateYear input st index)))"
  by (simp add: simulateYear_def Let_def)

lemma simulate_lengths:
  "length (currentSnapshots (simulate input n)) = n \<and>
   length (newSnapshots (simulate input n)) = n \<and>
   length (seriesPoints (simulate input n)) = n"
proof (induction n)
  case 0
  show ?case by (simp add: simulate_0)
next
  case (Suc n)
  obtain c where c: "currentSnapshots (simulate input (Suc n)) = currentSnapshots (simulate input n) @ [c]"
    using simulateYear_currentSnapshots [of input "simulate input n" n] unfolding simulate_Suc by blast
  obtain d where d: "newSnapshots (simulate input (Suc n)) = newSnapshots (simulate input n) @ [d]"
    using simulateYear_newSnapshots [of input "simulate input n" n] unfolding simulate_Suc by blast
  obtain p where p: "seriesPoints (simulate input (Suc n)) = seriesPoints (simulate input n) @ [p]"
    using simulateYear_seriesPoints [of input "simulate input n" n] unfolding simulate_Suc by blast
  show ?case unfolding c d p using Suc by simp
qed

lemma simulate_currentSnapshots_nth:
  "i < n \<Longrightarrow>
     age (currentSnapshots (simulate input n) ! i) = clientAgeOf input + int i \<and>
     mortgageBalance (currentSnapshots (simulate input n) ! i) =
       nthOrZero (balances (currentBalancesOf input)) i \<and>
     cashFlow (currentSnapshots (simulate input n) ! i) =
       netIncome (currentSnapshots (simulate input n) ! i) -
       taxPayable (currentSnapshots (simulate input n) ! i) -
       annualDebtService (currentBalancesOf input)"
proof (induction n)
  case 0
  then show ?case by simp
next
  case (Suc n)
  obtain c where c: "currentSnapshots (simulate input (Suc n)) = currentSnapshots (simulate input n) @ [c]"
    "age c = clientAgeOf input + int n"
    "mortgageBalance c = nthOrZero (balances (currentBalancesOf input)) n"
    "cashFlow c = netIncome c - taxPayable c - annualDebtService (currentBalancesOf input)"
    using simulateYear_currentSnapshots [of input "simulate input n" n] unfolding simulate_Suc by blast
  have len: "length (currentSnapshots (simulate input n)) = n" by (simp add: simulate_lengths)
  show ?case
  proof (cases "i < n")
    case True
    then show ?thesis using Suc.IH unfolding c(1) by (simp add: nth_append len)
  next
    case False
    then have "i = n" using Suc.prems by simp
    then show ?thesis unfolding c(1) using c(2,3,4) by (simp add: nth_append len)
  qed
qed

lemma simulate_newSnapshots_nth:
  "i < n \<Longrightarrow> age (newSnapshots (simulate input n) ! i) = clientAgeOf input + int i"
proof (induction n)
  case 0
  then show ?case by simp
next
  case (Suc n)
  obtain c where c: "newSnapshots (simulate input (Suc n)) = newSnapshots (simulate input n) @ [c]"
    "age c = clientAgeOf input + int n"
    using simulateYear_newSnapshots [of input "simulate input n" n] unfolding simulate_Suc by blast
  have len: "length (newSnapshots (simulate input n)) = n" by (simp add: simulate_lengths)
  show ?case
  proof (cases "i < n")
    case True
    then show ?thesis using Suc.IH unfolding c(1) by (simp add: nth_append len)
  next
    case False
    then have "i = n" using Suc.prems by simp
    then show ?thesis unfolding c(1) using c(2) by (simp add: nth_append len)
  qed
qed

lemma simulate_seriesPoints_nth:
  "i < n \<Longrightarrow>
     pointAge (seriesPoints (simulate input n) ! i) = clientAgeOf input + int i \<and>
     delta (seriesPoints (simulate input n) ! i) =
       newValue (seriesPoints (simulate input n) ! i) -
       currentValue (seriesPoints (simulate input n) ! i) \<and>
     currentValue (seriesPoints (simulate input n) ! i) =
       strategyValue (currentSnapshots (simulate input n) ! i) \<and>
     newValue (seriesPoints (simulate input n) ! i) =
       strategyValue (newSnapshots (simulate input n) ! i)"
proof (induction n)
  case 0
  then show ?case by simp
next
  case (Suc n)
  obtain p where p: "seriesPoints (simulate input (Suc n)) = seriesPoints (simulate input n) @ [p]"
    "pointAge p = clientAgeOf input + int n"
    "delta p = newValue p - currentValue p"
    "currentValue p = strategyValue (last (currentSnapshots (simulate input (Suc n))))"
    "newValue p = strategyValue (last (newSnapshots (simulate input (Suc n))))"
    using simulateYear_seriesPoints [of input "simulate input n" n] unfolding simulate_Suc by blast
  obtain c where c: "currentSnapshots (simulate input (Suc n)) = currentSnapshots (simulate input n) @ [c]"
    using simulateYear_currentSnapshots [of input "simulate input n" n] unfolding simulate_Suc by blast
  obtain d where d: "newSnapshots (simulate input (Suc n)) = newSnapshots (simulate input n) @ [d]"
    using simulateYear_newSnapshots [of input "simulate input n" n] unfolding simulate_Suc by blast
  note len = simulate_lengths [of input n]
  show ?case
  proof (cases "i < n")
    case True
    then show ?thesis using Suc.IH unfolding p(1) c d by (simp add: nth_append len)
  next
    case False
    then have "i = n" using Suc.prems by simp
    then show ?thesis using p(2,3,4,5) unfolding p(1) c d by (simp add: nth_append len)
  qed
qed

lemma yearsOf_pos: "1 \<le> yearsOf input"
  by (simp add: yearsOf_def planningAgeOf_def)

lemma calculateDecision_Inr:
  "calculateDecision input = Inr (projr (calculateDecision input))"
  using yearsOf_pos [of input]
  by (simp add: calculateDecision_def Let_def simulate_lengths)

lemma calculateDecision_series:
  "currentSeries (projr (calculateDecision input)) = currentSnapshots (simulate input (nat (yearsOf input)))"
  "newSeries (projr (calculateDecision input)) = newSnapshots (simulate input (nat (yearsOf input)))"
  "series (projr (calculateDecision input)) = seriesPoints (simulate input (nat (yearsOf input)))"
  "resultPlanningAge (projr (calculateDecision input)) = planningAgeOf input"
  "currentAtPlanning (projr (calculateDecision input)) =
     currentSnapshots (simulate input (nat (yearsOf input))) ! nat (yearsOf input - 1)"
  "newAtPlanning (projr (calculateDecision input)) =
     newSnapshots (simulate input (nat (yearsOf input))) ! nat (yearsOf input - 1)"
  "breakEvenAge (projr (calculateDecision input)) =
     scanBreakEvenAge (scanSeries (seriesPoints (simulate input (nat (yearsOf input)))))"
  "peakDeltaAge (projr (calculateDecision input)) =
     scanPeakDeltaAge (scanSeries (seriesPoints (simulate input (nat (yearsOf input)))))"
  "peakDeltaValue (projr (calculateDecision input)) =
     (if Number_isFinite (scanPeakDeltaValue (scanSeries (seriesPoints (simulate input (nat (yearsOf input))))))
      then safeNumber (scanPeakDeltaValue (scanSeries (seriesPoints (simulate input (nat (yearsOf input))))))
      else 0)"
  using yearsOf_pos [of input]
  by (simp_all add: calculateDecision_def Let_def simulate_lengths)

lemma calculateDecision_decision:
  "decision (projr (calculateDecision input)) =
     (if strategyValue (newAtPlanning (projr (calculateDecision input))) \<ge>
         strategyValue (currentAtPlanning (projr (calculateDecision input))) *
           (1 + safeNumber (decisionMarginPercent input) / 100)
      then YES else NO)"
  using yearsOf_pos [of input]
  by (simp add: calculateDecision_def Let_def simulate_lengths)

subsection \<open>The scan of the series\<close>

lemma find_snoc:
  "find P (xs @ [x]) = (case find P xs of Some y \<Rightarrow> Some y | None \<Rightarrow> if P x then Some x else None)"
  by (induction xs) simp_all

lemma scanPoint_fields:
  "scanBreakEvenAge (scanPoint s p) =
     (if scanBreakEvenAge s = None \<and> 0 \<le> delta p then Some (pointAge p) else scanBreakEvenAge s)"
  "scanPeakDeltaValue (scanPoint s p) =
     (if greaterThan (delta p) (scanPeakDeltaValue s) then Num (delta p) else scanPeakDeltaValue s)"
  "scanPeakDeltaAge (scanPoint s p) =
     (if greaterThan (delta p) (scanPeakDeltaValue s) then Some (pointAge p) else scanPeakDeltaAge s)"
  by (simp_all add: scanPoint_def Let_def)

lemma scanSeries_Nil:
  "scanSeries [] = \<lparr>scanBreakEvenAge = None, scanPeakDeltaValue = NegInfinity, scanPeakDeltaAge = None\<rparr>"
  by (simp add: scanSeries_def)

lemma scanSeries_snoc: "scanSeries (xs @ [x]) = scanPoint (scanSeries xs) x"
  by (simp add: scanSeries_def)

lemma scanSeries_breakEven:
  "scanBreakEvenAge (scanSeries xs) = map_option pointAge (find (\<lambda>p. 0 \<le> delta p) xs)"
proof (induction xs rule: rev_induct)
  case Nil
  show ?case by (simp add: scanSeries_Nil)
next
  case (snoc x xs)
  show ?case unfolding scanSeries_snoc scanPoint_fields snoc.IH find_snoc
    by (simp split: option.splits)
qed

lemma scanSeries_peak:
  "xs \<noteq> [] \<Longrightarrow>
     \<exists>i < length xs.
       scanPeakDeltaValue (scanSeries xs) = Num (delta (xs ! i)) \<and>
       scanPeakDeltaAge (scanSeries xs) = Some (pointAge (xs ! i)) \<and>
       (\<forall>j < i. delta (xs ! j) < delta (xs ! i)) \<and>
       (\<forall>j < length xs. delta (xs ! j) \<le> delta (xs ! i))"
proof (induction xs rule: rev_induct)
  case Nil
  then show ?case by simp
next
  case (snoc x xs)
  show ?case
  proof (cases "xs = []")
    case True
    then show ?thesis using scanSeries_snoc [of "[]" x]
      by (simp add: scanPoint_fields scanSeries_Nil)
  next
    case False
    from snoc.IH [OF False] obtain i where i: "i < length xs"
      "scanPeakDeltaValue (scanSeries xs) = Num (delta (xs ! i))"
      "scanPeakDeltaAge (scanSeries xs) = Some (pointAge (xs ! i))"
      "\<forall>j < i. delta (xs ! j) < delta (xs ! i)"
      "\<forall>j < length xs. delta (xs ! j) \<le> delta (xs ! i)"
      by blast
    show ?thesis
    proof (cases "delta x > delta (xs ! i)")
      case True
      have lt: "\<forall>j < length xs. delta ((xs @ [x]) ! j) < delta x"
        using i(5) True by (auto simp add: nth_append)
      have le: "\<forall>j < length (xs @ [x]). delta ((xs @ [x]) ! j) \<le> delta x"
        using i(5) True by (auto simp add: nth_append less_Suc_eq)
      have "scanPeakDeltaValue (scanSeries (xs @ [x])) = Num (delta ((xs @ [x]) ! length xs))"
        "scanPeakDeltaAge (scanSeries (xs @ [x])) = Some (pointAge ((xs @ [x]) ! length xs))"
        using True by (simp_all add: scanSeries_snoc scanPoint_fields i(2))
      then show ?thesis using lt le
        by (intro exI [of _ "length xs"]) simp
    next
      case False
      have v: "scanPeakDeltaValue (scanSeries (xs @ [x])) = Num (delta ((xs @ [x]) ! i))"
        "scanPeakDeltaAge (scanSeries (xs @ [x])) = Some (pointAge ((xs @ [x]) ! i))"
        using False i(1) by (simp_all add: scanSeries_snoc scanPoint_fields i(2,3) nth_append)
      have lt: "\<forall>j < i. delta ((xs @ [x]) ! j) < delta ((xs @ [x]) ! i)"
        using i(1,4) by (simp add: nth_append)
      have le: "\<forall>j < length (xs @ [x]). delta ((xs @ [x]) ! j) \<le> delta ((xs @ [x]) ! i)"
        using i(1,5) False by (auto simp add: nth_append less_Suc_eq)
      show ?thesis using v lt le i(1)
        by (intro exI [of _ i]) simp
    qed
  qed
qed

subsection \<open>The mortgage balances\<close>



lemma buildMortgageBalances_fields:
  "annualDebtService (buildMortgageBalances b rate term years) =
     calculateMonthlyPayment (Num (max 0 (safeNumber b))) rate term * 12"
  "length (balances (buildMortgageBalances b rate term years)) = nat years"
  "t < nat years \<Longrightarrow>
     balances (buildMortgageBalances b rate term years) ! t =
       max 0 (- futureValue rate t
                  (- (calculateMonthlyPayment (Num (max 0 (safeNumber b))) rate term * 12))
                  (max 0 (safeNumber b)) 1)"
  by (simp_all add: buildMortgageBalances_def Let_def)

lemma currentSeries_mortgageBalance:
  assumes "t < nat (yearsOf input)"
  shows "mortgageBalance (currentSeries (projr (calculateDecision input)) ! t) =
     max 0 (- futureValue (loanRate input) t
              (- (calculateMonthlyPayment (Num (max 0 (safeNumber (currentMortgageBalance input))))
                         (loanRate input) (loanAmortizationYears input) * 12))
              (max 0 (safeNumber (currentMortgageBalance input))) 1)"
  using assms
  by (simp add: calculateDecision_series simulate_currentSnapshots_nth nthOrZero_def
      currentBalancesOf_def buildMortgageBalances_fields)

lemma futureValue_explicit:
  "- futureValue rate t (- a) b 1 =
     (if t = 0 then b
      else if safeNumber rate / 100 = 0 then b - a * real t
      else b * (1 + safeNumber rate / 100) ^ t -
           a * (1 + safeNumber rate / 100) *
             (((1 + safeNumber rate / 100) ^ t - 1) / (safeNumber rate / 100)))"
  by (simp add: futureValue_def Let_def)

lemma projr_eq: "calculateDecision input = Inr r \<Longrightarrow> r = projr (calculateDecision input)"
  by simp

subsection \<open>Evaluation on the concrete inputs\<close>

lemma inputThreeYears_loan:
  "loanRate inputThreeYears = Num 6"
  "loanAmortizationYears inputThreeYears = Num 2"
  "currentMortgageBalance inputThreeYears = Num 100000"
  by (simp_all add: inputThreeYears_def)

lemma inputThreeYears_payment: "calculateMonthlyPayment (Num 100000) (Num 6) (Num 2) =
   500 * (201 / 200) ^ 24 / ((201 / 200) ^ 24 - 1)"
  by (simp add: calculateMonthlyPayment_def Let_def Math_round_def)

lemma inputThreeYears_years: "yearsOf inputThreeYears = 3"
  by (simp add: yearsOf_def planningAgeOf_def clientAgeOf_def inputThreeYears_def Math_round_def)

lemma inputThreeYears_balance_year1:
  "mortgageBalance (currentSeries (projr (calculateDecision inputThreeYears)) ! 1) < 50000"
proof -
  have "(1::nat) < nat (yearsOf inputThreeYears)" by (simp add: inputThreeYears_years)
  note e = currentSeries_mortgageBalance [OF this]
  have "max 0 (- futureValue (Num 6) 1 (- (calculateMonthlyPayment (Num 100000) (Num 6) (Num 2) * 12)) 100000 1) < 50000"
    unfolding inputThreeYears_payment by (simp add: futureValue_def Let_def power_divide)
  then show ?thesis unfolding e inputThreeYears_loan by simp
qed

lemma monthlyTraceBalance_numeral:
  "monthlyTraceBalance r pay b (numeral k) =
     monthlyTraceBalance r pay (max 0 (b - max 0 (pay - b * r))) (pred_numeral k)"
  by (simp add: numeral_eq_Suc Let_def)

lemma inputThreeYears_trace:
  "51000 < monthlyTraceBalance (6 / 100 / 12) (500 * (201 / 200) ^ 24 / ((201 / 200) ^ 24 - 1)) 100000 12"
  by (simp add: monthlyTraceBalance_numeral power_divide)

lemma simulate_numeral:
  "simulate input (numeral k) =
     simulateYear input (simulate input (pred_numeral k)) (pred_numeral k)"
  by (simp add: numeral_eq_Suc simulate_Suc)

lemma inputNoMortgage_fields:
  "currentPropertyValue inputNoMortgage = Num 1000000"
  "currentPropertyAcb inputNoMortgage = Num 1000000"
  "currentMortgageBalance inputNoMortgage = Num 0"
  "currentCapRate inputNoMortgage = Num 2"
  "currentGrowthRate inputNoMortgage = Num 2"
  "newCapRate inputNoMortgage = Num 8"
  "newGrowthRate inputNoMortgage = Num 2"
  "marginalTaxRate inputNoMortgage = Num 50"
  "capitalGainsInclusionRate inputNoMortgage = Num 50"
  "realtorFeesPercent inputNoMortgage = Num 2"
  "propertyTransferTaxPercent inputNoMortgage = Num 1"
  "investmentAccountRoi inputNoMortgage = Num 5"
  "loanRate inputNoMortgage = Num 6"
  "loanAmortizationYears inputNoMortgage = Num 2"
  "clientAge inputNoMortgage = Num 70"
  "planningAge inputNoMortgage = Num 72"
  "newLoanToValue inputNoMortgage = Num 0"
  "decisionMarginPercent inputNoMortgage = Num 2"
  by (simp_all add: inputNoMortgage_def)

lemma inputNoMortgage_setup:
  "clientAgeOf inputNoMortgage = 70"
  "yearsOf inputNoMortgage = 3"
  "investmentGrowthOf inputNoMortgage = 41 / 40"
  "newPropertyValueStartOf inputNoMortgage = 970000"
  "currentBalancesOf inputNoMortgage = \<lparr>balances = [0, 0, 0], annualDebtService = 0\<rparr>"
  "newBalancesOf inputNoMortgage = \<lparr>balances = [0, 0, 0], annualDebtService = 0\<rparr>"
  by (simp_all add: clientAgeOf_def yearsOf_def planningAgeOf_def investmentGrowthOf_def
      newPropertyValueStartOf_def netSaleProceedsOf_def capitalGainsTax_def currentBalancesOf_def
      newBalancesOf_def newMortgageStartOf_def buildMortgageBalances_def calculateMonthlyPayment_def
      futureValue_def inputNoMortgage_fields Math_round_def Let_def eval_nat_numeral)

lemma inputNoMortgage_series:
  "seriesPoints (simulate inputNoMortgage 3) =
     [\<lparr>pointAge = 70, currentValue = 1010000, newValue = 1008800, delta = - 1200\<rparr>,
      \<lparr>pointAge = 71, currentValue = 1035450, newValue = 1068746, delta = 33296\<rparr>,
      \<lparr>pointAge = 72, currentValue = 4246661 / 4, newValue = 113088517 / 100,
        delta = 1730498 / 25\<rparr>]"
  by (simp add: simulate_numeral simulate_Suc simulate_0 simulateYear_def Let_def
      inputNoMortgage_setup nthOrZero_def capitalGainsTax_def inputNoMortgage_fields power_divide)

lemma inputDecliningNew_fields:
  "currentPropertyValue inputDecliningNew = Num 1000000"
  "currentPropertyAcb inputDecliningNew = Num 1000000"
  "currentMortgageBalance inputDecliningNew = Num 0"
  "currentCapRate inputDecliningNew = Num 2"
  "currentGrowthRate inputDecliningNew = Num 2"
  "newCapRate inputDecliningNew = Num 14"
  "newGrowthRate inputDecliningNew = Num (- 4)"
  "marginalTaxRate inputDecliningNew = Num 50"
  "capitalGainsInclusionRate inputDecliningNew = Num 50"
  "realtorFeesPercent inputDecliningNew = Num 2"
  "propertyTransferTaxPercent inputDecliningNew = Num 1"
  "investmentAccountRoi inputDecliningNew = Num 0"
  "loanRate inputDecliningNew = Num 6"
  "loanAmortizationYears inputDecliningNew = Num 2"
  "clientAge inputDecliningNew = Num 70"
  "planningAge inputDecliningNew = Num 73"
  "newLoanToValue inputDecliningNew = Num 0"
  "decisionMarginPercent inputDecliningNew = Num 2"
  by (simp_all add: inputDecliningNew_def)

lemma inputDecliningNew_setup:
  "clientAgeOf inputDecliningNew = 70"
  "yearsOf inputDecliningNew = 4"
  "investmentGrowthOf inputDecliningNew = 1"
  "newPropertyValueStartOf inputDecliningNew = 970000"
  "currentBalancesOf inputDecliningNew = \<lparr>balances = [0, 0, 0, 0], annualDebtService = 0\<rparr>"
  "newBalancesOf inputDecliningNew = \<lparr>balances = [0, 0, 0, 0], annualDebtService = 0\<rparr>"
  by (simp_all add: clientAgeOf_def yearsOf_def planningAgeOf_def investmentGrowthOf_def
      newPropertyValueStartOf_def netSaleProceedsOf_def capitalGainsTax_def currentBalancesOf_def
      newBalancesOf_def newMortgageStartOf_def buildMortgageBalances_def calculateMonthlyPayment_def
      futureValue_def inputDecliningNew_fields Math_round_def Let_def eval_nat_numeral)

lemma inputDecliningNew_series:
  "seriesPoints (simulate inputDecliningNew 4) =
     [\<lparr>pointAge = 70, currentValue = 1010000, newValue = 1037900, delta = 27900\<rparr>,
      \<lparr>pointAge = 71, currentValue = 1035200, newValue = 1064284, delta = 29084\<rparr>,
      \<lparr>pointAge = 72, currentValue = 1060904, newValue = 27240316 / 25, delta = 717716 / 25\<rparr>,
      \<lparr>pointAge = 73, currentValue = 27178052 / 25, newValue = 696205084 / 625,
        delta = 16753784 / 625\<rparr>]"
  by (simp add: simulate_numeral simulate_Suc simulate_0 simulateYear_def Let_def
      inputDecliningNew_setup nthOrZero_def capitalGainsTax_def inputDecliningNew_fields power_divide)


lemma inputNoMortgage_result_series:
  "series (projr (calculateDecision inputNoMortgage)) =
     [\<lparr>pointAge = 70, currentValue = 1010000, newValue = 1008800, delta = - 1200\<rparr>,
      \<lparr>pointAge = 71, currentValue = 1035450, newValue = 1068746, delta = 33296\<rparr>,
      \<lparr>pointAge = 72, currentValue = 4246661 / 4, newValue = 113088517 / 100,
        delta = 1730498 / 25\<rparr>]"
  by (simp add: calculateDecision_series inputNoMortgage_setup inputNoMortgage_series)

lemma inputDecliningNew_result_series:
  "series (projr (calculateDecision inputDecliningNew)) =
     [\<lparr>pointAge = 70, currentValue = 1010000, newValue = 1037900, delta = 27900\<rparr>,
      \<lparr>pointAge = 71, currentValue = 1035200, newValue = 1064284, delta = 29084\<rparr>,
      \<lparr>pointAge = 72, currentValue = 1060904, newValue = 27240316 / 25, delta = 717716 / 25\<rparr>,
      \<lparr>pointAge = 73, currentValue = 27178052 / 25, newValue = 696205084 / 625,
        delta = 16753784 / 625\<rparr>]"
  by (simp add: calculateDecision_series inputDecliningNew_setup inputDecliningNew_series)

lemma inputNoMortgage_planning_values:
  "strategyValue (last (currentSeries (projr (calculateDecision inputNoMortgage)))) = 4246661 / 4"
  "strategyValue (last (newSeries (projr (calculateDecision inputNoMortgage)))) = 113088517 / 100"
proof -
  have two: "(2::nat) < 3" by simp
  note s = simulate_seriesPoints_nth [OF two, of inputNoMortgage]
  have ne: "currentSnapshots (simulate inputNoMortgage 3) \<noteq> []"
    "newSnapshots (simulate inputNoMortgage 3) \<noteq> []"
    using simulate_lengths [of inputNoMortgage 3] by auto
  have l: "last (currentSnapshots (simulate inputNoMortgage 3)) = currentSnapshots (simulate inputNoMortgage 3) ! 2"
    "last (newSnapshots (simulate inputNoMortgage 3)) = newSnapshots (simulate inputNoMortgage 3) ! 2"
    by (simp_all add: last_conv_nth ne simulate_lengths)
  show "strategyValue (last (currentSeries (projr (calculateDecision inputNoMortgage)))) = 4246661 / 4"
    using s by (simp add: calculateDecision_series inputNoMortgage_setup l inputNoMortgage_series)
  show "strategyValue (last (newSeries (projr (calculateDecision inputNoMortgage)))) = 113088517 / 100"
    using s by (simp add: calculateDecision_series inputNoMortgage_setup l inputNoMortgage_series)
qed

subsection \<open>Claims about calculateDecision\<close>

text \<open>
  C2. \<open>calculateDecision\<close> returns a result whose \<open>currentAtPlanning\<close> and
  \<open>newAtPlanning\<close> are the last snapshots of the keep and of the sell strategy, both at
  the planning age, and whose decision is YES exactly when the sell strategy's value there
  is at least the keep strategy's value times \<open>1 + decisionMarginPercent / 100\<close>, and NO
  otherwise.
\<close>

theorem calculateDecision_decision_rule:
  "\<exists>r. calculateDecision input = Inr r \<and>
     currentAtPlanning r = last (currentSeries r) \<and>
     newAtPlanning r = last (newSeries r) \<and>
     age (currentAtPlanning r) = resultPlanningAge r \<and>
     age (newAtPlanning r) = resultPlanningAge r \<and>
     (decision r = YES \<longleftrightarrow>
        strategyValue (newAtPlanning r) \<ge>
        strategyValue (currentAtPlanning r) * (1 + safeNumber (decisionMarginPercent input) / 100)) \<and>
     (decision r = NO \<longleftrightarrow>
        strategyValue (newAtPlanning r) <
        strategyValue (currentAtPlanning r) * (1 + safeNumber (decisionMarginPercent input) / 100))"
proof -
  define r where "r = projr (calculateDecision input)"
  define n where "n = nat (yearsOf input)"
  have ok: "calculateDecision input = Inr r" unfolding r_def by (rule calculateDecision_Inr)
  have n: "0 < n" "nat (yearsOf input - 1) = n - 1" "planningAgeOf input = clientAgeOf input + int (n - 1)"
    using yearsOf_pos [of input] by (simp_all add: n_def yearsOf_def)
  have ser: "currentSeries r = currentSnapshots (simulate input n)"
    "newSeries r = newSnapshots (simulate input n)"
    unfolding r_def n_def by (simp_all add: calculateDecision_series)
  have at: "currentAtPlanning r = currentSnapshots (simulate input n) ! (n - 1)"
    "newAtPlanning r = newSnapshots (simulate input n) ! (n - 1)"
    unfolding r_def by (simp_all add: calculateDecision_series n(2) n_def [symmetric])
  have ne: "currentSnapshots (simulate input n) \<noteq> []" "newSnapshots (simulate input n) \<noteq> []"
    using n(1) simulate_lengths [of input n] by auto
  have l: "currentAtPlanning r = last (currentSeries r)" "newAtPlanning r = last (newSeries r)"
    unfolding at ser by (simp_all add: last_conv_nth ne simulate_lengths)
  have a: "age (currentAtPlanning r) = resultPlanningAge r" "age (newAtPlanning r) = resultPlanningAge r"
    unfolding at using n(1)
    by (simp_all add: simulate_currentSnapshots_nth simulate_newSnapshots_nth r_def
        calculateDecision_series n(3))
  have d: "decision r =
     (if strategyValue (newAtPlanning r) \<ge>
         strategyValue (currentAtPlanning r) * (1 + safeNumber (decisionMarginPercent input) / 100)
      then YES else NO)"
    unfolding r_def by (rule calculateDecision_decision)
  show ?thesis using ok l a d by (intro exI [of _ r]) auto
qed

theorem calculateDecision_decision_rule_witness:
  "calculateDecision inputNoMortgage = Inr (projr (calculateDecision inputNoMortgage)) \<and>
   age (currentAtPlanning (projr (calculateDecision inputNoMortgage))) = 72 \<and>
   age (newAtPlanning (projr (calculateDecision inputNoMortgage))) = 72 \<and>
   strategyValue (currentAtPlanning (projr (calculateDecision inputNoMortgage))) = 4246661 / 4 \<and>
   strategyValue (newAtPlanning (projr (calculateDecision inputNoMortgage))) = 113088517 / 100 \<and>
   decision (projr (calculateDecision inputNoMortgage)) = YES"
proof -
  from calculateDecision_decision_rule [of inputNoMortgage] obtain r where r:
    "calculateDecision inputNoMortgage = Inr r"
    "currentAtPlanning r = last (currentSeries r)"
    "newAtPlanning r = last (newSeries r)"
    "age (currentAtPlanning r) = resultPlanningAge r"
    "age (newAtPlanning r) = resultPlanningAge r"
    "decision r = YES \<longleftrightarrow>
        strategyValue (newAtPlanning r) \<ge>
        strategyValue (currentAtPlanning r) * (1 + safeNumber (decisionMarginPercent inputNoMortgage) / 100)"
    by blast
  have e: "r = projr (calculateDecision inputNoMortgage)" using r(1) by (rule projr_eq)
  have pa: "resultPlanningAge r = 72"
    unfolding e using inputNoMortgage_setup(1,2)
    by (simp add: calculateDecision_series yearsOf_def)
  have v1: "strategyValue (currentAtPlanning r) = 4246661 / 4"
    using inputNoMortgage_planning_values(1) [folded e] by (simp only: r(2))
  have v2: "strategyValue (newAtPlanning r) = 113088517 / 100"
    using inputNoMortgage_planning_values(2) [folded e] by (simp only: r(3))
  note v = v1 v2
  have "decision r = YES" unfolding r(6) v by (simp add: inputNoMortgage_fields)
  then show ?thesis using r(1,4,5) pa v unfolding e [symmetric] by simp
qed

text \<open>
  C3, as stated, fails: the keep strategy's mortgage balance after one year is below 50000
  on the three year plan, while the monthly amortization trace of the same balance, with
  the monthly annuity payment at a twelfth of the loan rate, stands above 51000 after
  twelve periods.
\<close>

theorem keep_mortgage_balance_counterexample:
  "calculateDecision inputThreeYears = Inr (projr (calculateDecision inputThreeYears)) \<and>
   1 < length (currentSeries (projr (calculateDecision inputThreeYears))) \<and>
   mortgageBalance (currentSeries (projr (calculateDecision inputThreeYears)) ! 1) < 50000 \<and>
   51000 < monthlyTraceBalance (safeNumber (loanRate inputThreeYears) / 100 / 12)
     (calculateMonthlyPayment (Num (max 0 (safeNumber (currentMortgageBalance inputThreeYears))))
        (loanRate inputThreeYears) (loanAmortizationYears inputThreeYears))
     (max 0 (safeNumber (currentMortgageBalance inputThreeYears))) (12 * 1)"
proof -
  have len: "1 < length (currentSeries (projr (calculateDecision inputThreeYears)))"
    by (simp add: calculateDecision_series simulate_lengths inputThreeYears_years)
  have tr: "51000 < monthlyTraceBalance (6 / 100 / 12)
      (calculateMonthlyPayment (Num 100000) (Num 6) (Num 2)) 100000 12"
    unfolding inputThreeYears_payment by (rule inputThreeYears_trace)
  show ?thesis
    using calculateDecision_Inr [of inputThreeYears] len inputThreeYears_balance_year1 tr
    by (simp add: inputThreeYears_loan)
qed

text \<open>
  C3, amended. The annual debt service is twelve times the monthly annuity payment at a
  twelfth of the loan rate, and it is what every year's cash flow deducts. The mortgage
  balance of the keep strategy's snapshot at year index t is not the monthly trace but the
  future value of the starting balance B under annual compounding at the full annual rate
  R, with that annual debt service A paid at the start of each year, floored at 0: B for
  t = 0, B - A t when R = 0, and B (1 + R)^t - A (1 + R) ((1 + R)^t - 1) / R otherwise.
\<close>

theorem keep_mortgage_balance:
  fixes input :: DecisionInputs
  defines "B \<equiv> max 0 (safeNumber (currentMortgageBalance input))"
    and "R \<equiv> safeNumber (loanRate input) / 100"
    and "A \<equiv> calculateMonthlyPayment (Num (max 0 (safeNumber (currentMortgageBalance input))))
                (loanRate input) (loanAmortizationYears input) * 12"
  shows "\<exists>r. calculateDecision input = Inr r \<and>
     annualDebtService (currentBalancesOf input) = A \<and>
     (\<forall>t < length (currentSeries r).
        mortgageBalance (currentSeries r ! t) =
          max 0 (if t = 0 then B
                 else if R = 0 then B - A * real t
                 else B * (1 + R) ^ t - A * (1 + R) * (((1 + R) ^ t - 1) / R)) \<and>
        cashFlow (currentSeries r ! t) =
          netIncome (currentSeries r ! t) - taxPayable (currentSeries r ! t) - A)"
proof -
  define r where "r = projr (calculateDecision input)"
  have ok: "calculateDecision input = Inr r" unfolding r_def by (rule calculateDecision_Inr)
  have ads: "annualDebtService (currentBalancesOf input) = A"
    unfolding A_def by (simp add: currentBalancesOf_def buildMortgageBalances_fields)
  have len: "length (currentSeries r) = nat (yearsOf input)"
    unfolding r_def by (simp add: calculateDecision_series simulate_lengths)
  have bal: "mortgageBalance (currentSeries r ! t) =
          max 0 (if t = 0 then B
                 else if R = 0 then B - A * real t
                 else B * (1 + R) ^ t - A * (1 + R) * (((1 + R) ^ t - 1) / R))"
    if "t < nat (yearsOf input)" for t
    unfolding r_def currentSeries_mortgageBalance [OF that] futureValue_explicit
    by (simp add: B_def R_def A_def)
  have cf: "cashFlow (currentSeries r ! t) =
          netIncome (currentSeries r ! t) - taxPayable (currentSeries r ! t) - A"
    if "t < nat (yearsOf input)" for t
    using simulate_currentSnapshots_nth [OF that, of input]
    unfolding r_def by (simp add: calculateDecision_series ads)
  show ?thesis using ok ads bal cf unfolding len [symmetric] by (intro exI [of _ r]) simp
qed

theorem keep_mortgage_balance_witness:
  "calculateDecision inputThreeYears = Inr (projr (calculateDecision inputThreeYears)) \<and>
   1 < length (currentSeries (projr (calculateDecision inputThreeYears))) \<and>
   annualDebtService (currentBalancesOf inputThreeYears) =
     calculateMonthlyPayment (Num 100000) (Num 6) (Num 2) * 12 \<and>
   mortgageBalance (currentSeries (projr (calculateDecision inputThreeYears)) ! 1) =
     max 0 (100000 * (1 + 6 / 100) -
            calculateMonthlyPayment (Num 100000) (Num 6) (Num 2) * 12 * (1 + 6 / 100))"
proof -
  from keep_mortgage_balance [of inputThreeYears] obtain r where r:
    "calculateDecision inputThreeYears = Inr r"
    "annualDebtService (currentBalancesOf inputThreeYears) =
       calculateMonthlyPayment (Num (max 0 (safeNumber (currentMortgageBalance inputThreeYears))))
         (loanRate inputThreeYears) (loanAmortizationYears inputThreeYears) * 12"
    "\<forall>t < length (currentSeries r).
        mortgageBalance (currentSeries r ! t) =
          max 0 (if t = 0 then max 0 (safeNumber (currentMortgageBalance inputThreeYears))
                 else if safeNumber (loanRate inputThreeYears) / 100 = 0
                 then max 0 (safeNumber (currentMortgageBalance inputThreeYears)) -
                      calculateMonthlyPayment (Num (max 0 (safeNumber (currentMortgageBalance inputThreeYears))))
                        (loanRate inputThreeYears) (loanAmortizationYears inputThreeYears) * 12 * real t
                 else max 0 (safeNumber (currentMortgageBalance inputThreeYears)) *
                        (1 + safeNumber (loanRate inputThreeYears) / 100) ^ t -
                      calculateMonthlyPayment (Num (max 0 (safeNumber (currentMortgageBalance inputThreeYears))))
                        (loanRate inputThreeYears) (loanAmortizationYears inputThreeYears) * 12 *
                        (1 + safeNumber (loanRate inputThreeYears) / 100) *
                        (((1 + safeNumber (loanRate inputThreeYears) / 100) ^ t - 1) /
                         (safeNumber (loanRate inputThreeYears) / 100)))"
    by blast
  have e: "r = projr (calculateDecision inputThreeYears)" using r(1) by (rule projr_eq)
  have len: "1 < length (currentSeries r)"
    unfolding e by (simp add: calculateDecision_series simulate_lengths inputThreeYears_years)
  from r(3) len have "mortgageBalance (currentSeries r ! 1) =
     max 0 (100000 * (1 + 6 / 100) -
            calculateMonthlyPayment (Num 100000) (Num 6) (Num 2) * 12 * (1 + 6 / 100))"
    by (simp add: inputThreeYears_loan)
  then show ?thesis using r(1,2) len unfolding e by (simp add: inputThreeYears_loan)
qed



text \<open>
  C5. The delta of every point of the series is the sell value minus the keep value. The
  break-even age is null exactly when every delta of the series is negative; when it is an
  age, that age lies between the client age and the planning age, it is the age of a point
  of the series, the delta at that age is at least 0, and the delta at every earlier age
  is negative.
\<close>

theorem calculateDecision_breakEvenAge:
  "\<exists>r. calculateDecision input = Inr r \<and>
     (\<forall>p \<in> set (series r). delta p = newValue p - currentValue p) \<and>
     (breakEvenAge r = None \<longleftrightarrow> (\<forall>p \<in> set (series r). delta p < 0)) \<and>
     (\<forall>a. breakEvenAge r = Some a \<longrightarrow>
        clientAgeOf input \<le> a \<and> a \<le> resultPlanningAge r \<and>
        (\<exists>p \<in> set (series r). pointAge p = a) \<and>
        (\<forall>p \<in> set (series r).
           (pointAge p = a \<longrightarrow> 0 \<le> delta p) \<and> (pointAge p < a \<longrightarrow> delta p < 0)))"
proof -
  define r where "r = projr (calculateDecision input)"
  define n where "n = nat (yearsOf input)"
  define S where "S = seriesPoints (simulate input n)"
  have ok: "calculateDecision input = Inr r" unfolding r_def by (rule calculateDecision_Inr)
  have ser: "series r = S" unfolding r_def S_def n_def by (simp add: calculateDecision_series)
  have len: "length S = n" unfolding S_def by (simp add: simulate_lengths)
  have pa: "resultPlanningAge r = clientAgeOf input + int n - 1"
    using yearsOf_pos [of input]
    unfolding r_def n_def by (simp add: calculateDecision_series yearsOf_def)
  have nth: "pointAge (S ! i) = clientAgeOf input + int i"
    "delta (S ! i) = newValue (S ! i) - currentValue (S ! i)" if "i < n" for i
    unfolding S_def using simulate_seriesPoints_nth [OF that, of input] by simp_all
  have be: "breakEvenAge r = map_option pointAge (find (\<lambda>p. 0 \<le> delta p) S)"
    unfolding r_def S_def n_def by (simp add: calculateDecision_series scanSeries_breakEven)
  have d: "\<forall>p \<in> set S. delta p = newValue p - currentValue p"
    using nth(2) len by (auto simp add: in_set_conv_nth)
  have none: "breakEvenAge r = None \<longleftrightarrow> (\<forall>p \<in> set S. delta p < 0)"
    unfolding be by (auto simp add: find_None_iff not_le)
  have some: "clientAgeOf input \<le> a \<and> a \<le> resultPlanningAge r \<and>
        (\<exists>p \<in> set S. pointAge p = a) \<and>
        (\<forall>p \<in> set S. (pointAge p = a \<longrightarrow> 0 \<le> delta p) \<and> (pointAge p < a \<longrightarrow> delta p < 0))"
    if "breakEvenAge r = Some a" for a
  proof -
    from that obtain x where x: "find (\<lambda>p. 0 \<le> delta p) S = Some x" "a = pointAge x"
      unfolding be by auto
    from x(1) obtain i where i: "i < length S" "0 \<le> delta (S ! i)" "x = S ! i"
      "\<forall>j < i. \<not> 0 \<le> delta (S ! j)"
      unfolding find_Some_iff by blast
    have a: "a = clientAgeOf input + int i" using x(2) i(1,3) nth(1) len by simp
    have mem: "S ! i \<in> set S" using i(1) by simp
    have all: "(pointAge p = a \<longrightarrow> 0 \<le> delta p) \<and> (pointAge p < a \<longrightarrow> delta p < 0)"
      if "p \<in> set S" for p
    proof -
      from that obtain j where j: "j < length S" "p = S ! j" by (auto simp add: in_set_conv_nth)
      have pj: "pointAge p = clientAgeOf input + int j" using j nth(1) len by simp
      show ?thesis unfolding pj a using i(2,4) j by (auto simp add: not_le)
    qed
    show ?thesis using a i(1) len pa mem x(2) i(3) all by auto
  qed
  show ?thesis using ok d none some unfolding ser [symmetric] by (intro exI [of _ r]) blast
qed

theorem calculateDecision_breakEvenAge_witness:
  "calculateDecision inputNoMortgage = Inr (projr (calculateDecision inputNoMortgage)) \<and>
   map delta (series (projr (calculateDecision inputNoMortgage))) = [- 1200, 33296, 1730498 / 25] \<and>
   breakEvenAge (projr (calculateDecision inputNoMortgage)) = Some 71 \<and>
   clientAgeOf inputNoMortgage \<le> 71 \<and>
   71 \<le> resultPlanningAge (projr (calculateDecision inputNoMortgage))"
proof -
  from calculateDecision_breakEvenAge [of inputNoMortgage] obtain r where rr:
    "calculateDecision inputNoMortgage = Inr r \<and>
     (\<forall>p \<in> set (series r). delta p = newValue p - currentValue p) \<and>
     (breakEvenAge r = None \<longleftrightarrow> (\<forall>p \<in> set (series r). delta p < 0)) \<and>
     (\<forall>a. breakEvenAge r = Some a \<longrightarrow>
        clientAgeOf inputNoMortgage \<le> a \<and> a \<le> resultPlanningAge r \<and>
        (\<exists>p \<in> set (series r). pointAge p = a) \<and>
        (\<forall>p \<in> set (series r).
           (pointAge p = a \<longrightarrow> 0 \<le> delta p) \<and> (pointAge p < a \<longrightarrow> delta p < 0)))" ..
  note r = rr [THEN conjunct1] rr [THEN conjunct2, THEN conjunct2, THEN conjunct1]
    rr [THEN conjunct2, THEN conjunct2, THEN conjunct2]
  have e: "r = projr (calculateDecision inputNoMortgage)" using r(1) by (rule projr_eq)
  note S = inputNoMortgage_result_series [folded e]
  have "breakEvenAge r \<noteq> None" unfolding r(2) S by simp
  then obtain a where a: "breakEvenAge r = Some a" by blast
  from r(3) a have b: "clientAgeOf inputNoMortgage \<le> a" "a \<le> resultPlanningAge r"
    "\<exists>p \<in> set (series r). pointAge p = a"
    "\<forall>p \<in> set (series r). (pointAge p = a \<longrightarrow> 0 \<le> delta p) \<and> (pointAge p < a \<longrightarrow> delta p < 0)"
    by blast+
  have "a = 71" using b(3,4) unfolding S by auto
  then show ?thesis using r(1) a b(1,2) S unfolding e [symmetric] by simp
qed

text \<open>
  C6. The peak delta value is the maximum over the series of the sell value minus the keep
  value, and the peak delta age is the age of a point where that maximum is attained while
  every point of an earlier age is strictly below it: the first such age.
\<close>

theorem calculateDecision_peakDelta:
  "\<exists>r. calculateDecision input = Inr r \<and>
     peakDeltaValue r = Max ((\<lambda>p. newValue p - currentValue p) ` set (series r)) \<and>
     (\<exists>p \<in> set (series r).
        peakDeltaAge r = Some (pointAge p) \<and>
        newValue p - currentValue p = peakDeltaValue r \<and>
        (\<forall>q \<in> set (series r). pointAge q < pointAge p \<longrightarrow>
           newValue q - currentValue q < peakDeltaValue r))"
proof -
  define r where "r = projr (calculateDecision input)"
  define n where "n = nat (yearsOf input)"
  define S where "S = seriesPoints (simulate input n)"
  have ok: "calculateDecision input = Inr r" unfolding r_def by (rule calculateDecision_Inr)
  have ser: "series r = S" unfolding r_def S_def n_def by (simp add: calculateDecision_series)
  have len: "length S = n" unfolding S_def by (simp add: simulate_lengths)
  have n: "0 < n" using yearsOf_pos [of input] by (simp add: n_def)
  have ne: "S \<noteq> []" using len n by auto
  have nth: "pointAge (S ! i) = clientAgeOf input + int i"
    "delta (S ! i) = newValue (S ! i) - currentValue (S ! i)" if "i < n" for i
    unfolding S_def using simulate_seriesPoints_nth [OF that, of input] by simp_all
  have d: "delta p = newValue p - currentValue p" if "p \<in> set S" for p
    using that nth(2) len by (auto simp add: in_set_conv_nth)
  from scanSeries_peak [OF ne] obtain i where i: "i < length S"
    "scanPeakDeltaValue (scanSeries S) = Num (delta (S ! i))"
    "scanPeakDeltaAge (scanSeries S) = Some (pointAge (S ! i))"
    "\<forall>j < i. delta (S ! j) < delta (S ! i)"
    "\<forall>j < length S. delta (S ! j) \<le> delta (S ! i)"
    by blast
  have pv: "peakDeltaValue r = delta (S ! i)"
    unfolding r_def by (simp add: calculateDecision_series n_def [symmetric] S_def [symmetric] i(2))
  have pg: "peakDeltaAge r = Some (pointAge (S ! i))"
    unfolding r_def by (simp add: calculateDecision_series n_def [symmetric] S_def [symmetric] i(3))
  have mem: "S ! i \<in> set S" using i(1) by simp
  have img: "(\<lambda>p. newValue p - currentValue p) ` set S = delta ` set S"
    using d by (intro image_cong) simp_all
  have "Max (delta ` set S) = delta (S ! i)"
  proof (rule Max_eqI)
    show "finite (delta ` set S)" by simp
    show "delta (S ! i) \<in> delta ` set S" using mem by simp
    fix y assume "y \<in> delta ` set S"
    then obtain j where "j < length S" "y = delta (S ! j)" by (auto simp add: in_set_conv_nth)
    then show "y \<le> delta (S ! i)" using i(5) by simp
  qed
  then have mx: "peakDeltaValue r = Max ((\<lambda>p. newValue p - currentValue p) ` set S)"
    unfolding img pv by simp
  have first: "newValue q - currentValue q < peakDeltaValue r"
    if "q \<in> set S" "pointAge q < pointAge (S ! i)" for q
  proof -
    from that(1) obtain j where j: "j < length S" "q = S ! j" by (auto simp add: in_set_conv_nth)
    have "j < i" using that(2) j i(1) nth(1) len by simp
    then have "delta (S ! j) < delta (S ! i)" using i(4) by blast
    then show ?thesis using d [OF that(1)] j pv by simp
  qed
  have "peakDeltaAge r = Some (pointAge (S ! i)) \<and>
        newValue (S ! i) - currentValue (S ! i) = peakDeltaValue r \<and>
        (\<forall>q \<in> set S. pointAge q < pointAge (S ! i) \<longrightarrow>
           newValue q - currentValue q < peakDeltaValue r)"
    using pg pv d [OF mem] first by simp
  then show ?thesis using ok mx mem unfolding ser [symmetric] by (intro exI [of _ r]) blast
qed

theorem calculateDecision_peakDelta_witness:
  "calculateDecision inputDecliningNew = Inr (projr (calculateDecision inputDecliningNew)) \<and>
   map delta (series (projr (calculateDecision inputDecliningNew))) =
     [27900, 29084, 717716 / 25, 16753784 / 625] \<and>
   peakDeltaValue (projr (calculateDecision inputDecliningNew)) = 29084 \<and>
   peakDeltaAge (projr (calculateDecision inputDecliningNew)) = Some 71"
proof -
  from calculateDecision_peakDelta [of inputDecliningNew] obtain r where r:
    "calculateDecision inputDecliningNew = Inr r"
    "peakDeltaValue r = Max ((\<lambda>p. newValue p - currentValue p) ` set (series r))"
    "\<exists>p \<in> set (series r).
        peakDeltaAge r = Some (pointAge p) \<and>
        newValue p - currentValue p = peakDeltaValue r"
    by blast
  have e: "r = projr (calculateDecision inputDecliningNew)" using r(1) by (rule projr_eq)
  note S = inputDecliningNew_result_series [folded e]
  have pv: "peakDeltaValue r = 29084" unfolding r(2) S by simp
  have pa: "peakDeltaAge r = Some 71" using r(3) unfolding pv S by auto
  show ?thesis using r(1) pv pa S unfolding e [symmetric] by simp
qed

end
